theory Spec2Isabelle
  imports Main
begin

section \<open>JSON values, Python dictionaries and HTTP responses\<close>

text \<open>
  Request bodies and stored records are JSON objects whose fields hold the scalars of
  the data model: integers, strings and null. JSON booleans, floating point numbers and
  nested arrays or objects as field values are left out of the model. Python reads an
  object as a \<open>dict\<close>: an insertion-ordered list of key/value pairs.
\<close>

datatype json = JNull | JInt int | JStr string

type_synonym dict = "(string \<times> json) list"

datatype py_error =
  KeyError | IndexError | ValueError | TypeError | AttributeError
  | MultipleResultsFound | DatabaseError

text \<open>\<open>k in d\<close>, \<open>d.get(k)\<close> (None when absent), \<open>d[k]\<close> (raising \<open>KeyError\<close>),
  \<open>d[k] = v\<close> and \<open>d.update(other)\<close>.\<close>

definition has_key :: "dict \<Rightarrow> string \<Rightarrow> bool" where
  "has_key d k = (k \<in> set (map fst d))"

definition dict_get :: "dict \<Rightarrow> string \<Rightarrow> json" where
  "dict_get d k = (case map_of d k of None \<Rightarrow> JNull | Some v \<Rightarrow> v)"

definition dict_get_default :: "dict \<Rightarrow> string \<Rightarrow> json \<Rightarrow> json" where
  "dict_get_default d k dflt = (case map_of d k of None \<Rightarrow> dflt | Some v \<Rightarrow> v)"

definition getitem :: "dict \<Rightarrow> string \<Rightarrow> py_error + json" where
  "getitem d k = (case map_of d k of None \<Rightarrow> Inl KeyError | Some v \<Rightarrow> Inr v)"

text \<open>Sequencing of steps that may raise: the first exception ends the evaluation.\<close>

definition and_then :: "py_error + 'a \<Rightarrow> ('a \<Rightarrow> py_error + 'b) \<Rightarrow> py_error + 'b" where
  "and_then m f = (case m of Inl e \<Rightarrow> Inl e | Inr x \<Rightarrow> f x)"

fun setitem :: "dict \<Rightarrow> string \<Rightarrow> json \<Rightarrow> dict" where
  "setitem [] k v = [(k, v)]"
| "setitem ((k', v') # d) k v = (if k' = k then (k, v) # d else (k', v') # setitem d k v)"

fun dict_update :: "dict \<Rightarrow> dict \<Rightarrow> dict" where
  "dict_update d [] = d"
| "dict_update d ((k, v) # other) = dict_update (setitem d k v) other"

text \<open>Python truthiness: \<open>None\<close>, \<open>0\<close> and \<open>''\<close> are false.\<close>

fun truthy :: "json \<Rightarrow> bool" where
  "truthy JNull = False"
| "truthy (JInt i) = (i \<noteq> 0)"
| "truthy (JStr s) = (s \<noteq> [])"

text \<open>
  An entity fetched from a store may be \<open>None\<close>; \<open>not x\<close> then holds for
  \<open>None\<close> and for an entity without properties.
\<close>

fun falsy_entity :: "dict option \<Rightarrow> bool" where
  "falsy_entity None = True"
| "falsy_entity (Some e) = (e = [])"

text \<open>\<open>str(n)\<close> for an integer, and \<open>str(v)\<close> as an f-string prints a field value.\<close>

definition digit :: "nat \<Rightarrow> char" where
  "digit n = ''0123456789'' ! n"

function str_nat :: "nat \<Rightarrow> string" where
  "str_nat n = (if n < 10 then [digit n] else str_nat (n div 10) @ [digit (n mod 10)])"
  by pat_completeness auto
termination
  by (relation "measure (\<lambda>n. n)") auto

definition str_int :: "int \<Rightarrow> string" where
  "str_int i = (if i < 0 then ''-'' @ str_nat (nat (- i)) else str_nat (nat i))"

fun py_str :: "json \<Rightarrow> string" where
  "py_str JNull = ''None''"
| "py_str (JInt i) = str_int i"
| "py_str (JStr s) = s"

text \<open>
  A handler returns a status code and a body: \<open>jsonify\<close> of an object or of a list
  of objects, the page of the paginated listing (its entries and its \<open>next\<close> field), a
  text, or a rendered template with its arguments. An exception that no handler catches
  ends the request with status 500; one caught by a handler's \<open>except Exception\<close> is
  answered with \<open>{'Error': str(e)}\<close>.
\<close>

datatype body =
  Json dict
  | JsonList "dict list"
  | JsonPage "dict list" json
  | Text string
  | Template string dict
  | Unhandled py_error
  | Caught py_error

type_synonym response = "nat \<times> body"

definition unhandled :: "py_error \<Rightarrow> response" where
  "unhandled e = (500, Unhandled e)"

definition caught :: "py_error \<Rightarrow> response" where
  "caught e = (500, Caught e)"

section \<open>Assignment 2: REST API on the document store\<close>

subsection \<open>The Datastore client\<close>

text \<open>
  The Datastore is an external collaborator providing get, put, delete and
  query-by-equality. A kind is a table of entities under integer ids, in the order of
  insertion. \<open>client.key(kind, v)\<close> builds an id key from an integer and a name key
  from a string, and raises \<open>ValueError\<close> otherwise; the services store no entity
  under a name key. \<open>client.put\<close> of an entity with an incomplete key stores it under
  an id that the Datastore allocates: that id is an argument of the handlers that create
  entities.

  The integers of the Datastore are signed 64-bit integers, while a JSON body and a URL
  give Python integers of any size. The client raises \<open>ValueError\<close> when it is handed an
  integer outside that range: as the id of the key of a \<open>get\<close>, as a property value of
  the entity of a \<open>put\<close>, or as the value of a query filter. The call then has no effect
  on the store.
\<close>

type_synonym table = "(int \<times> dict) list"

datatype key = IdKey int | NameKey string

definition int64 :: "int \<Rightarrow> bool" where
  "int64 i = (- (2 ^ 63) \<le> i \<and> i < 2 ^ 63)"

text \<open>The ids that the Datastore allocates are positive signed 64-bit integers.\<close>

definition datastore_id :: "int \<Rightarrow> bool" where
  "datastore_id i = (0 < i \<and> int64 i)"

fun storable :: "json \<Rightarrow> bool" where
  "storable (JInt i) = int64 i"
| "storable (JStr s) = True"
| "storable JNull = True"

fun client_key :: "json \<Rightarrow> py_error + key" where
  "client_key (JInt i) = Inr (IdKey i)"
| "client_key (JStr s) = Inr (NameKey s)"
| "client_key JNull = Inl ValueError"

fun client_get :: "table \<Rightarrow> key \<Rightarrow> py_error + dict option" where
  "client_get t (IdKey i) = (if int64 i then Inr (map_of t i) else Inl ValueError)"
| "client_get t (NameKey s) = Inr None"

text \<open>The table after a put: the entity replaces the one under its id, or comes last.\<close>

fun put_entity :: "table \<Rightarrow> int \<Rightarrow> dict \<Rightarrow> table" where
  "put_entity [] i e = [(i, e)]"
| "put_entity ((j, e') # t) i e = (if j = i then (i, e) # t else (j, e') # put_entity t i e)"

definition client_put :: "table \<Rightarrow> int \<Rightarrow> dict \<Rightarrow> py_error + table" where
  "client_put t i e =
     (if list_all (\<lambda>(k, v). storable v) e then Inr (put_entity t i e) else Inl ValueError)"

text \<open>\<open>client.delete(key)\<close>, which the handlers call with the key of an entity they have read.\<close>

definition client_delete :: "table \<Rightarrow> int \<Rightarrow> table" where
  "client_delete t i = filter (\<lambda>(j, e). j \<noteq> i) t"

text \<open>
  \<open>query.add_filter(f, '=', v)\<close> for each pair of the list, then \<open>query.fetch()\<close>:
  the entities that have every property of the filters with the value given.
\<close>

definition matches :: "(string \<times> json) list \<Rightarrow> dict \<Rightarrow> bool" where
  "matches filters e = list_all (\<lambda>(f, v). map_of e f = Some v) filters"

definition matching :: "table \<Rightarrow> (string \<times> json) list \<Rightarrow> table" where
  "matching t filters = filter (\<lambda>(j, e). matches filters e) t"

definition query_fetch :: "table \<Rightarrow> (string \<times> json) list \<Rightarrow> py_error + table" where
  "query_fetch t filters =
     (if list_all (\<lambda>(f, v). storable v) filters then Inr (matching t filters)
      else Inl ValueError)"

record gae_store =
  businesses :: table
  reviews :: table

subsection \<open>Helpers\<close>

definition validate_fields :: "dict \<Rightarrow> string list \<Rightarrow> string list" where
  "validate_fields data required_fields = filter (\<lambda>field. \<not> has_key data field) required_fields"

definition entity_not_found :: "string \<Rightarrow> response" where
  "entity_not_found entity =
     (404, Json [(''Error'', JStr (''No '' @ entity @ '' with this business_id exists''))])"

definition missing_fields_response :: "string list \<Rightarrow> response" where
  "missing_fields_response missing_fields =
     (400, Json [(''Error'',
        JStr ''The request body is missing at least one of the required attributes'')])"

text \<open>\<open>str\<close> of a list of field names, as an f-string prints it: \<open>['name', 'city']\<close>.\<close>

fun join_fields :: "string list \<Rightarrow> string" where
  "join_fields [] = []"
| "join_fields [f] = [CHR 0x27] @ f @ [CHR 0x27]"
| "join_fields (f # fs) = [CHR 0x27] @ f @ [CHR 0x27] @ '', '' @ join_fields fs"

definition str_fields :: "string list \<Rightarrow> string" where
  "str_fields fs = ''['' @ join_fields fs @ '']''"

text \<open>\<open>jsonify\<close> of an entity after \<open>entity['id'] = entity.key.id\<close>.\<close>

definition with_id :: "int \<Rightarrow> dict \<Rightarrow> dict" where
  "with_id i e = setitem e ''id'' (JInt i)"

subsection \<open>Business handlers\<close>

definition create_business :: "int \<Rightarrow> gae_store \<Rightarrow> dict \<Rightarrow> gae_store \<times> response" where
  "create_business new_id st data =
     (let required_fields = [''owner_id'', ''name'', ''street_address'', ''state'', ''city'', ''zip_code''];
          missing_fields = validate_fields data required_fields
      in if missing_fields \<noteq> [] then (st, missing_fields_response missing_fields)
         else
           let new_business = dict_update [] data
           in (case client_put (businesses st) new_id new_business of
                 Inl e \<Rightarrow> (st, unhandled e)
               | Inr stored \<Rightarrow>
                   (st\<lparr>businesses := stored\<rparr>, (201, Json (with_id new_id new_business)))))"

definition get_business_by_id :: "gae_store \<Rightarrow> int \<Rightarrow> response" where
  "get_business_by_id st business_id =
     (case client_get (businesses st) (IdKey business_id) of
        Inl e \<Rightarrow> unhandled e
      | Inr business \<Rightarrow>
          if falsy_entity business then entity_not_found ''business''
          else (200, Json (with_id business_id (the business))))"

definition delete_business_by_id :: "gae_store \<Rightarrow> int \<Rightarrow> gae_store \<times> response" where
  "delete_business_by_id st business_id =
     (case client_get (businesses st) (IdKey business_id) of
        Inl e \<Rightarrow> (st, unhandled e)
      | Inr business \<Rightarrow>
          if falsy_entity business then (st, entity_not_found ''business'')
          else
            (case query_fetch (reviews st) [(''business_id'', JInt business_id)] of
               Inl e \<Rightarrow> (st, unhandled e)
             | Inr found \<Rightarrow>
                 let st1 = fold (\<lambda>review s. s\<lparr>reviews := client_delete (reviews s) (fst review)\<rparr>)
                             found st;
                     st2 = st1\<lparr>businesses := client_delete (businesses st1) business_id\<rparr>
                 in (st2, (204, Text []))))"

definition edit_business_gae :: "gae_store \<Rightarrow> int \<Rightarrow> dict \<Rightarrow> gae_store \<times> response" where
  "edit_business_gae st business_id data =
     (case client_get (businesses st) (IdKey business_id) of
        Inl e \<Rightarrow> (st, unhandled e)
      | Inr business \<Rightarrow>
          if falsy_entity business then (st, entity_not_found ''business'')
          else
            let required_fields = [''owner_id'', ''name'', ''street_address'', ''city'', ''zip_code''];
                missing_fields = validate_fields data required_fields
            in if missing_fields \<noteq> [] then (st, entity_not_found (str_fields missing_fields))
               else
                 let business' = dict_update (the business) data
                 in (case client_put (businesses st) business_id business' of
                       Inl e \<Rightarrow> (st, unhandled e)
                     | Inr stored \<Rightarrow>
                         (st\<lparr>businesses := stored\<rparr>,
                          (200, Json (with_id business_id business')))))"

definition list_businesses_for_owner_gae :: "gae_store \<Rightarrow> int \<Rightarrow> response" where
  "list_businesses_for_owner_gae st owner_id =
     (case query_fetch (businesses st) [(''owner_id'', JInt owner_id)] of
        Inl e \<Rightarrow> unhandled e
      | Inr found \<Rightarrow> (200, JsonList (map (\<lambda>(i, e). with_id i e) found)))"

subsection \<open>Review handlers\<close>

definition conflict_response :: response where
  "conflict_response =
     (409, Json [(''Error'', JStr (''You have already submitted a review for this business. ''
        @ ''You can update your previous review, or delete it and submit a new review''))])"

definition create_review_gae :: "int \<Rightarrow> gae_store \<Rightarrow> dict \<Rightarrow> gae_store \<times> response" where
  "create_review_gae new_id st data =
     (let required_fields = [''user_id'', ''business_id'', ''stars''];
          missing_fields = validate_fields data required_fields
      in if missing_fields \<noteq> [] then (st, missing_fields_response missing_fields)
         else
           (case and_then (getitem data ''business_id'') (\<lambda>business_id.
                   and_then (client_key business_id) (\<lambda>business_key.
                   and_then (client_get (businesses st) business_key) (\<lambda>business.
                     Inr (business_id, business)))) of
              Inl e \<Rightarrow> (st, unhandled e)
            | Inr (business_id, business) \<Rightarrow>
                if falsy_entity business then (st, entity_not_found ''business'')
                else
                  (case and_then (getitem data ''user_id'') (\<lambda>user_id.
                          and_then (query_fetch (reviews st)
                                      [(''user_id'', user_id), (''business_id'', business_id)])
                            (\<lambda>found. Inr (take 1 found))) of
                     Inl e \<Rightarrow> (st, unhandled e)
                   | Inr existing_review \<Rightarrow>
                       if existing_review \<noteq> [] then (st, conflict_response)
                       else
                         let review = dict_update [] data
                         in (case client_put (reviews st) new_id review of
                               Inl e \<Rightarrow> (st, unhandled e)
                             | Inr stored \<Rightarrow>
                                 (st\<lparr>reviews := stored\<rparr>,
                                  (201, Json (with_id new_id review)))))))"

definition list_reviews_for_user :: "gae_store \<Rightarrow> int \<Rightarrow> response" where
  "list_reviews_for_user st user_id =
     (case query_fetch (reviews st) [(''user_id'', JInt user_id)] of
        Inl e \<Rightarrow> unhandled e
      | Inr found \<Rightarrow> (200, JsonList (map (\<lambda>(i, e). with_id i e) found)))"

section \<open>Assignment 3: REST API on the relational store\<close>

subsection \<open>The database\<close>

text \<open>
  MySQL is an external collaborator. The two tables are lists of rows in the order of
  insertion; the \<open>zip_code\<close> column, which the handlers only write from and read into a
  Python \<open>int\<close>, holds that integer. An id that the URL gives is a Python \<open>int\<close> and
  compares with an INT column as an integer. What MySQL does with a bound parameter
  taken from the request body (how it compares it with an INT column, and which value
  an INT or a text column takes from it, if the statement is accepted at all) is not
  fixed by the repository, and neither is what \<open>int()\<close> makes of a string: these are the
  fields of the record \<open>platform\<close>, a parameter of the handlers that depend on them.
  \<open>last_insert_id()\<close>, the id that AUTO_INCREMENT gives a new row, is an argument of the
  handler that inserts.
\<close>

record business_row =
  b_id :: int
  b_owner_id :: int
  b_name :: string
  b_street_address :: string
  b_city :: string
  b_state :: string
  b_zip_code :: int

record review_row =
  r_id :: int
  r_user_id :: int
  r_business_id :: int
  r_stars :: int
  r_review_text :: "string option"

record sql_db =
  business_rows :: "business_row list"
  review_rows :: "review_row list"

record platform =
  int_eq :: "int \<Rightarrow> json \<Rightarrow> bool"
  as_int :: "json \<Rightarrow> int option"
  as_text :: "json \<Rightarrow> string option"
  int_of_str :: "string \<Rightarrow> int option"

text \<open>\<open>Result.one_or_none()\<close>: the only row, None without rows, an exception otherwise.\<close>

fun one_or_none :: "'a list \<Rightarrow> py_error + 'a option" where
  "one_or_none [] = Inr None"
| "one_or_none [x] = Inr (Some x)"
| "one_or_none (x # y # zs) = Inl MultipleResultsFound"

text \<open>\<open>int(v)\<close> of a field value, and the value a bound parameter gives a column.\<close>

fun py_int :: "platform \<Rightarrow> json \<Rightarrow> py_error + int" where
  "py_int p (JInt i) = Inr i"
| "py_int p (JStr s) = (case int_of_str p s of None \<Rightarrow> Inl ValueError | Some i \<Rightarrow> Inr i)"
| "py_int p JNull = Inl TypeError"

definition int_column :: "platform \<Rightarrow> json \<Rightarrow> py_error + int" where
  "int_column p v = (case as_int p v of None \<Rightarrow> Inl DatabaseError | Some i \<Rightarrow> Inr i)"

definition text_column :: "platform \<Rightarrow> json \<Rightarrow> py_error + string" where
  "text_column p v = (case as_text p v of None \<Rightarrow> Inl DatabaseError | Some s \<Rightarrow> Inr s)"

fun nullable_text_column :: "platform \<Rightarrow> json \<Rightarrow> py_error + string option" where
  "nullable_text_column p JNull = Inr None"
| "nullable_text_column p v = and_then (text_column p v) (\<lambda>s. Inr (Some s))"

fun text_json :: "string option \<Rightarrow> json" where
  "text_json None = JNull"
| "text_json (Some s) = JStr s"

definition rstrip_slash :: "string \<Rightarrow> string" where
  "rstrip_slash s = rev (dropWhile (\<lambda>c. c = CHR ''/'') (rev s))"

definition missing_attributes :: response where
  "missing_attributes =
     (400, Json [(''Error'',
        JStr ''The request body is missing at least one of the required attributes'')])"

definition no_business :: response where
  "no_business = (404, Json [(''Error'', JStr ''No business with this business_id exists'')])"

subsection \<open>Business handlers\<close>

definition business_entry :: "string \<Rightarrow> business_row \<Rightarrow> dict" where
  "business_entry self business =
     [(''id'', JInt (b_id business)),
      (''owner_id'', JInt (b_owner_id business)),
      (''name'', JStr (b_name business)),
      (''street_address'', JStr (b_street_address business)),
      (''city'', JStr (b_city business)),
      (''state'', JStr (b_state business)),
      (''zip_code'', JInt (b_zip_code business)),
      (''self'', JStr self)]"

text \<open>
  \<open>LIMIT :limit OFFSET :offset\<close> takes unsigned 64-bit integers; MySQL rejects the
  statement for a negative or a larger value, and the handler answers the exception
  with status 500.
\<close>

definition row_count :: "int \<Rightarrow> bool" where
  "row_count n = (0 \<le> n \<and> n < 2 ^ 64)"

definition list_businesses :: "sql_db \<Rightarrow> string \<Rightarrow> int \<Rightarrow> int \<Rightarrow> response" where
  "list_businesses db base_url offset limit =
     (if \<not> (row_count limit \<and> row_count offset) then caught DatabaseError
      else
        let businesses = take (nat limit) (drop (nat offset) (sort_key b_id (business_rows db)));
            business_list =
              map (\<lambda>business. business_entry (base_url @ ''/'' @ str_int (b_id business)) business)
                businesses;
            next_url =
              (if int (length businesses) = limit
               then JStr (base_url @ ''?offset='' @ str_int (offset + limit)
                            @ ''&limit='' @ str_int limit)
               else JNull)
        in (200, JsonPage business_list next_url))"

definition business_values ::
  "platform \<Rightarrow> dict \<Rightarrow> py_error + (json \<times> json \<times> json \<times> json \<times> json \<times> int)" where
  "business_values p content =
     and_then (getitem content ''owner_id'') (\<lambda>owner_id.
     and_then (getitem content ''name'') (\<lambda>name.
     and_then (getitem content ''street_address'') (\<lambda>street_address.
     and_then (getitem content ''city'') (\<lambda>city.
     and_then (getitem content ''state'') (\<lambda>state.
     and_then (getitem content ''zip_code'') (\<lambda>zip_code.
     and_then (py_int p zip_code) (\<lambda>zipcode.
       Inr (owner_id, name, street_address, city, state, zipcode))))))))"

definition update_business ::
  "platform \<Rightarrow> json \<times> json \<times> json \<times> json \<times> json \<times> int \<Rightarrow> business_row
     \<Rightarrow> py_error + business_row" where
  "update_business p vals business =
     (case vals of (owner_id, name, street_address, city, state, zipcode) \<Rightarrow>
       and_then (int_column p owner_id) (\<lambda>ow.
       and_then (text_column p name) (\<lambda>n.
       and_then (text_column p street_address) (\<lambda>a.
       and_then (text_column p city) (\<lambda>c.
       and_then (text_column p state) (\<lambda>s.
         Inr (business\<lparr>b_owner_id := ow, b_name := n, b_street_address := a, b_city := c,
                b_state := s, b_zip_code := zipcode\<rparr>)))))))"

definition edit_business_sql ::
  "platform \<Rightarrow> sql_db \<Rightarrow> string \<Rightarrow> int \<Rightarrow> dict \<Rightarrow> sql_db \<times> response" where
  "edit_business_sql p db base_url business_id content =
     (let required_fields = [''owner_id'', ''name'', ''street_address'', ''city'', ''state'', ''zip_code''];
          missing_fields = filter (\<lambda>field. \<not> has_key content field) required_fields
      in if missing_fields \<noteq> [] then (db, missing_attributes)
         else
           case one_or_none (filter (\<lambda>b. b_id b = business_id) (business_rows db)) of
             Inl e \<Rightarrow> (db, caught e)
           | Inr None \<Rightarrow> (db, no_business)
           | Inr (Some existing_business) \<Rightarrow>
               (case and_then (business_values p content)
                       (\<lambda>vals. and_then (update_business p vals existing_business)
                          (\<lambda>row. Inr (vals, row))) of
                  Inl e \<Rightarrow> (db, caught e)
                | Inr ((owner_id, name, street_address, city, state, zipcode), row) \<Rightarrow>
                    (db\<lparr>business_rows :=
                          map (\<lambda>b. if b_id b = business_id then row else b) (business_rows db)\<rparr>,
                     (200, Json [(''id'', JInt business_id), (''owner_id'', owner_id),
                        (''name'', name), (''street_address'', street_address), (''city'', city),
                        (''state'', state), (''zip_code'', JInt zipcode), (''self'', JStr base_url)]))))"

definition delete_business_sql :: "sql_db \<Rightarrow> int \<Rightarrow> sql_db \<times> response" where
  "delete_business_sql db business_id =
     (case one_or_none (filter (\<lambda>b. b_id b = business_id) (business_rows db)) of
        Inl e \<Rightarrow> (db, caught e)
      | Inr None \<Rightarrow> (db, no_business)
      | Inr (Some existing_business) \<Rightarrow>
          (db\<lparr>review_rows := filter (\<lambda>r. r_business_id r \<noteq> business_id) (review_rows db),
              business_rows := filter (\<lambda>b. b_id b \<noteq> business_id) (business_rows db)\<rparr>,
           (204, Text [])))"

definition list_businesses_for_owner_sql :: "sql_db \<Rightarrow> string \<Rightarrow> int \<Rightarrow> response" where
  "list_businesses_for_owner_sql db host_url owner_id =
     (let businesses = sort_key b_id (filter (\<lambda>b. b_owner_id b = owner_id) (business_rows db))
      in if businesses = []
         then (404, Json [(''Error'', JStr ''No businesses found for this owner'')])
         else (200, JsonList
                 (map (\<lambda>business.
                    business_entry
                      (rstrip_slash host_url @ ''/businesses/'' @ str_int (b_id business)) business)
                  businesses)))"

subsection \<open>Review handlers\<close>

definition insert_review ::
  "platform \<Rightarrow> int \<Rightarrow> json \<Rightarrow> json \<Rightarrow> json \<Rightarrow> json \<Rightarrow> py_error + review_row" where
  "insert_review p new_id user_id business_id stars review_text =
     and_then (int_column p user_id) (\<lambda>u.
     and_then (int_column p business_id) (\<lambda>b.
     and_then (int_column p stars) (\<lambda>s.
     and_then (nullable_text_column p review_text) (\<lambda>t.
       Inr \<lparr>r_id = new_id, r_user_id = u, r_business_id = b, r_stars = s,
            r_review_text = t\<rparr>))))"

definition create_review_sql ::
  "platform \<Rightarrow> int \<Rightarrow> sql_db \<Rightarrow> string \<Rightarrow> string \<Rightarrow> dict \<Rightarrow> sql_db \<times> response" where
  "create_review_sql p new_id db base_url host_url content =
     (let required_fields = [''user_id'', ''business_id'', ''stars''];
          missing_fields = filter (\<lambda>field. \<not> has_key content field) required_fields
      in if missing_fields \<noteq> [] then (db, missing_attributes)
         else
           case and_then (getitem content ''business_id'') (\<lambda>business_id.
                  and_then (one_or_none
                      (filter (\<lambda>b. int_eq p (b_id b) business_id) (business_rows db)))
                    (\<lambda>business_exists. Inr (business_id, business_exists))) of
             Inl e \<Rightarrow> (db, caught e)
           | Inr (business_id, None) \<Rightarrow> (db, no_business)
           | Inr (business_id, Some business) \<Rightarrow>
               (case and_then (getitem content ''user_id'') (\<lambda>user_id.
                       and_then (one_or_none
                           (filter (\<lambda>r. int_eq p (r_user_id r) user_id
                                         \<and> int_eq p (r_business_id r) business_id)
                              (review_rows db)))
                         (\<lambda>review_exists. Inr (user_id, review_exists))) of
                  Inl e \<Rightarrow> (db, caught e)
                | Inr (user_id, Some review) \<Rightarrow> (db, conflict_response)
                | Inr (user_id, None) \<Rightarrow>
                    (case and_then (getitem content ''stars'') (\<lambda>stars.
                            and_then (insert_review p new_id user_id business_id stars
                                        (dict_get_default content ''review_text'' (JStr [])))
                              (\<lambda>row. Inr (stars, row))) of
                       Inl e \<Rightarrow> (db, caught e)
                     | Inr (stars, row) \<Rightarrow>
                         (db\<lparr>review_rows := review_rows db @ [row]\<rparr>,
                          (201, Json [(''id'', JInt new_id), (''user_id'', user_id),
                             (''stars'', stars),
                             (''review_text'', dict_get_default content ''review_text'' (JStr [])),
                             (''self'', JStr (base_url @ ''/'' @ str_int new_id)),
                             (''business'', JStr (rstrip_slash host_url @ ''/businesses/''
                                                   @ py_str business_id))])))))"

definition review_entry :: "string \<Rightarrow> review_row \<Rightarrow> dict" where
  "review_entry host_url review =
     [(''id'', JInt (r_id review)),
      (''user_id'', JInt (r_user_id review)),
      (''business'', JStr (rstrip_slash host_url @ ''/businesses/''
                            @ str_int (r_business_id review))),
      (''stars'', JInt (r_stars review)),
      (''review_text'', text_json (r_review_text review)),
      (''self'', JStr (rstrip_slash host_url @ ''/reviews/'' @ str_int (r_id review)))]"

definition get_reviews_for_user :: "sql_db \<Rightarrow> string \<Rightarrow> int \<Rightarrow> response" where
  "get_reviews_for_user db host_url user_id =
     (let found = filter (\<lambda>r. r_user_id r = user_id) (review_rows db)
      in if found = [] then (404, JsonList [])
         else (200, JsonList (map (review_entry host_url) found)))"

section \<open>Assignment 4: OAuth login\<close>

text \<open>
  The anti-forgery states are Datastore entities of kind \<open>state\<close> with the single
  property \<open>state\<close>. The random token of \<open>secrets.token_urlsafe\<close> and the id that the
  Datastore allocates are arguments. Google's token endpoint and people API are external:
  \<open>exchange_code\<close> is the JSON object the token endpoint answers for a code, and
  \<open>user_names\<close> the \<open>names\<close> list of the user info for an access token (None when the
  user info has no such field).
\<close>

definition store_state :: "int \<Rightarrow> table \<Rightarrow> string \<Rightarrow> py_error + table" where
  "store_state new_id states state =
     client_put states new_id (dict_update [] [(''state'', JStr state)])"

definition verify_state :: "table \<Rightarrow> string \<Rightarrow> py_error + table \<times> bool" where
  "verify_state states state =
     and_then (query_fetch states [(''state'', JStr state)]) (\<lambda>results.
       case results of
         [] \<Rightarrow> Inr (states, False)
       | result # rest \<Rightarrow> Inr (client_delete states (fst result), True))"

text \<open>
  The states that are stored lie under different ids and are pairwise different: each
  login stores a fresh token of \<open>secrets.token_urlsafe\<close>.
\<close>

definition unique_states :: "table \<Rightarrow> bool" where
  "unique_states states =
     (distinct (map fst states) \<and> distinct (map (\<lambda>x. map_of (snd x) ''state'') states))"

definition authorization_url :: "string \<Rightarrow> string" where
  "authorization_url state =
     ''https://accounts.google.com/o/oauth2/v2/auth'' @ ''?client_id='' @ ''&redirect_uri=''
     @ ''https://assignment4-renew.uw.r.appspot.com/oauth''
     @ ''&response_type=code&scope=https://www.googleapis.com/auth/userinfo.profile''
     @ ''&state='' @ state"

text \<open>The handler \<open>welcome\<close> of the route \<open>/\<close>.\<close>

definition welcome_page :: "int \<Rightarrow> string \<Rightarrow> table \<Rightarrow> table \<times> response" where
  "welcome_page new_id state states =
     (case store_state new_id states state of
        Inl e \<Rightarrow> (states, unhandled e)
      | Inr stored \<Rightarrow>
          (stored,
           (200, Template ''welcome.html''
              [(''authorization_url'', JStr (authorization_url state))])))"

record google =
  exchange_code :: "string option \<Rightarrow> dict"
  user_names :: "json \<Rightarrow> dict list option"

text \<open>\<open>user_info.get("names", [{}])[0]\<close>.\<close>

fun first_names :: "dict list option \<Rightarrow> py_error + dict" where
  "first_names None = Inr []"
| "first_names (Some []) = Inl IndexError"
| "first_names (Some (names # others)) = Inr names"

definition state_verification_failed :: response where
  "state_verification_failed = (400, Text ''State verification failed'')"

definition oauth_callback ::
  "google \<Rightarrow> table \<Rightarrow> string option \<Rightarrow> string option \<Rightarrow> table \<times> response" where
  "oauth_callback g states code state =
     (case state of
        None \<Rightarrow> (states, state_verification_failed)
      | Some s \<Rightarrow>
          if s = [] then (states, state_verification_failed)
          else
            (case verify_state states s of
               Inl e \<Rightarrow> (states, unhandled e)
             | Inr (states', False) \<Rightarrow> (states', state_verification_failed)
             | Inr (states', True) \<Rightarrow>
                 let token_data = exchange_code g code;
                     access_token = dict_get token_data ''access_token''
                 in if \<not> truthy access_token
                    then (states', (400, Text ''Failed to retrieve access token''))
                    else
                      (case first_names (user_names g access_token) of
                         Inl e \<Rightarrow> (states', unhandled e)
                       | Inr names \<Rightarrow>
                           (states',
                            (200, Template ''userinfo.html''
                               [(''given_name'', dict_get_default names ''givenName'' (JStr ''Unknown'')),
                                (''family_name'', dict_get_default names ''familyName'' (JStr ''Unknown'')),
                                (''state'', JStr s)])))))"

text \<open>
  The server handles one request after the other: a login at \<open>/\<close>, with the id and
  the token it is given, or a callback at \<open>/oauth\<close>.
\<close>

datatype event = Login int string | Callback "string option" "string option"

fun handle :: "google \<Rightarrow> event \<Rightarrow> table \<Rightarrow> table" where
  "handle g (Login new_id state) states = fst (welcome_page new_id state states)"
| "handle g (Callback code state) states = fst (oauth_callback g states code state)"

definition serve :: "google \<Rightarrow> event list \<Rightarrow> table \<Rightarrow> table" where
  "serve g events states = fold (handle g) events states"

section \<open>Assignment 5: REST API with JWT\<close>

subsection \<open>Verifying the token\<close>

text \<open>
  The key set published by the identity provider and the JWT library are external:
  \<open>jwks_keys\<close> is the list \<open>jwks["keys"]\<close>, \<open>get_unverified_header\<close> the header of a
  token (None where the library raises \<open>JWTError\<close>), and \<open>decode\<close> the claims of a token
  checked against a key, audience and issuer (None where the library raises). The
  request headers are a list of name/value pairs.
\<close>

record jose =
  jwks_keys :: "dict list"
  get_unverified_header :: "string \<Rightarrow> dict option"
  decode :: "string \<Rightarrow> dict \<Rightarrow> dict option"

text \<open>\<open>str.split()\<close>: the words between runs of whitespace.\<close>

definition is_space :: "char \<Rightarrow> bool" where
  "is_space c = (of_char c \<in> set [9, 10, 11, 12, 13, 28, 29, 30, 31, 32, 133, 160 :: nat])"

fun split_words :: "string \<Rightarrow> string \<Rightarrow> string list" where
  "split_words [] w = (if w = [] then [] else [rev w])"
| "split_words (c # cs) w =
     (if is_space c then (if w = [] then split_words cs [] else rev w # split_words cs [])
      else split_words cs (c # w))"

definition split :: "string \<Rightarrow> string list" where
  "split s = split_words s []"

text \<open>The loop over \<open>jwks["keys"]\<close>, which leaves the last key with the header's kid.\<close>

definition rsa_key_of :: "dict \<Rightarrow> py_error + dict" where
  "rsa_key_of key =
     and_then (getitem key ''kty'') (\<lambda>kty.
     and_then (getitem key ''kid'') (\<lambda>kid.
     and_then (getitem key ''use'') (\<lambda>use.
     and_then (getitem key ''n'') (\<lambda>n.
     and_then (getitem key ''e'') (\<lambda>e.
       Inr [(''kty'', kty), (''kid'', kid), (''use'', use), (''n'', n), (''e'', e)])))))"

fun select_rsa_key :: "dict list \<Rightarrow> dict \<Rightarrow> dict \<Rightarrow> py_error + dict" where
  "select_rsa_key [] unverified_header rsa_key = Inr rsa_key"
| "select_rsa_key (key # keys) unverified_header rsa_key =
     and_then (getitem key ''kid'') (\<lambda>kid.
     and_then (getitem unverified_header ''kid'') (\<lambda>header_kid.
       if kid = header_kid
       then and_then (rsa_key_of key) (\<lambda>found. select_rsa_key keys unverified_header found)
       else select_rsa_key keys unverified_header rsa_key))"

definition verify_jwt :: "jose \<Rightarrow> (string \<times> string) list \<Rightarrow> py_error + dict option" where
  "verify_jwt j headers =
     (case map_of headers ''Authorization'' of
        None \<Rightarrow> Inr None
      | Some authorization \<Rightarrow>
          (case split authorization of
             [] \<Rightarrow> Inl IndexError
           | [scheme] \<Rightarrow> Inl IndexError
           | scheme # token # rest \<Rightarrow>
               (case get_unverified_header j token of
                  None \<Rightarrow> Inr None
                | Some unverified_header \<Rightarrow>
                    and_then (getitem unverified_header ''alg'') (\<lambda>alg.
                      if alg = JStr ''HS256'' then Inr None
                      else
                        and_then (select_rsa_key (jwks_keys j) unverified_header []) (\<lambda>rsa_key.
                          if rsa_key \<noteq> [] then Inr (decode j token rsa_key)
                          else Inr None)))))"

subsection \<open>Business handlers\<close>

definition unauthorized :: response where
  "unauthorized = (401, Json [(''Error'', JStr ''Invalid JWT / Unauthorized access.'')])"

definition check_attributes :: "dict \<Rightarrow> bool" where
  "check_attributes content =
     list_all (\<lambda>field. has_key content field \<and> dict_get content field \<noteq> JNull)
       [''name'', ''street_address'', ''city'', ''state'', ''zip_code'', ''inspection_score'']"

definition businesses_post ::
  "jose \<Rightarrow> int \<Rightarrow> table \<Rightarrow> string \<Rightarrow> (string \<times> string) list \<Rightarrow> dict \<Rightarrow> table \<times> response" where
  "businesses_post j new_id store url_root headers content =
     (if \<not> check_attributes content
      then (store, (400, Json [(''Error'',
              JStr ''The request body is missing at least one of the required attributes'')]))
      else
        case verify_jwt j headers of
          Inl e \<Rightarrow> (store, unhandled e)
        | Inr None \<Rightarrow> (store, unauthorized)
        | Inr (Some payload) \<Rightarrow>
            if payload = [] then (store, unauthorized)
            else
              let new_business = dict_update [(''owner_id'', dict_get payload ''sub'')] content;
                  self_link = url_root @ ''businesses/'' @ str_int new_id;
                  response_data =
                    setitem (dict_update [(''id'', JInt new_id), (''owner_id'', dict_get payload ''sub'')]
                               content)
                      ''self'' (JStr self_link)
              in (case client_put store new_id new_business of
                    Inl e \<Rightarrow> (store, unhandled e)
                  | Inr stored \<Rightarrow> (stored, (201, Json response_data))))"

definition hidden_business :: response where
  "hidden_business = (403, Json [(''Error'', JStr ''No business with this business_id exists'')])"

definition get_business_jwt ::
  "jose \<Rightarrow> table \<Rightarrow> string \<Rightarrow> (string \<times> string) list \<Rightarrow> int \<Rightarrow> response" where
  "get_business_jwt j store url_root headers business_id =
     (case verify_jwt j headers of
        Inl e \<Rightarrow> unhandled e
      | Inr None \<Rightarrow> unauthorized
      | Inr (Some payload) \<Rightarrow>
          (case client_get store (IdKey business_id) of
             Inl e \<Rightarrow> unhandled e
           | Inr None \<Rightarrow> hidden_business
           | Inr (Some business) \<Rightarrow>
               if business = [] then hidden_business
               else
                 (case and_then (getitem payload ''sub'') (\<lambda>sub.
                         and_then (getitem business ''owner_id'') (\<lambda>owner_id.
                           Inr (sub \<noteq> owner_id))) of
                    Inl e \<Rightarrow> unhandled e
                  | Inr True \<Rightarrow> hidden_business
                  | Inr False \<Rightarrow>
                      (200, Json (setitem (with_id business_id business) ''self''
                         (JStr (url_root @ ''businesses/'' @ str_int business_id)))))))"

definition businesses_list ::
  "jose \<Rightarrow> table \<Rightarrow> string \<Rightarrow> (string \<times> string) list \<Rightarrow> response" where
  "businesses_list j store base_url headers =
     (case verify_jwt j headers of
        Inl e \<Rightarrow> unhandled e
      | Inr payload \<Rightarrow>
          let sub = (case payload of
                       None \<Rightarrow> JNull
                     | Some claims \<Rightarrow> if claims \<noteq> [] then dict_get claims ''sub'' else JNull);
              results = (if truthy sub then query_fetch store [(''owner_id'', sub)] else Inr store)
          in (case results of
                Inl e \<Rightarrow> unhandled e
              | Inr found \<Rightarrow>
                  (200, JsonList
                     (map (\<lambda>(i, r).
                        [(''id'', JInt i),
                         (''owner_id'', dict_get r ''owner_id''),
                         (''name'', dict_get r ''name''),
                         (''street_address'', dict_get r ''street_address''),
                         (''city'', dict_get r ''city''),
                         (''state'', dict_get r ''state''),
                         (''zip_code'', dict_get r ''zip_code''),
                         (''inspection_score'',
                            if truthy sub then dict_get r ''inspection_score'' else JNull),
                         (''self'', JStr (base_url @ ''businesses/'' @ str_int i))])
                      found))))"

section \<open>Example data\<close>

text \<open>Concrete stores, requests and collaborators, at which the properties are evaluated.\<close>

definition demo_business :: dict where
  "demo_business =
     [(''owner_id'', JInt 1), (''name'', JStr ''A''), (''street_address'', JStr ''1 St''),
      (''city'', JStr ''X''), (''state'', JStr ''WA''), (''zip_code'', JStr ''98101'')]"

definition demo_review :: dict where
  "demo_review = [(''user_id'', JInt 4), (''business_id'', JInt 1), (''stars'', JInt 5)]"

definition demo_gae :: gae_store where
  "demo_gae = \<lparr>businesses = [(1, demo_business)], reviews = [(10, demo_review)]\<rparr>"

definition demo_db :: sql_db where
  "demo_db =
     \<lparr>business_rows =
        [\<lparr>b_id = 1, b_owner_id = 1, b_name = ''A'', b_street_address = ''1 St'', b_city = ''X'',
          b_state = ''WA'', b_zip_code = 98101\<rparr>],
      review_rows =
        [\<lparr>r_id = 10, r_user_id = 4, r_business_id = 1, r_stars = 5, r_review_text = Some ''good''\<rparr>]\<rparr>"

definition demo_platform :: platform where
  "demo_platform =
     \<lparr>int_eq = (\<lambda>i v. v = JInt i),
      as_int = (\<lambda>v. case v of JInt i \<Rightarrow> Some i | _ \<Rightarrow> None),
      as_text = (\<lambda>v. case v of JStr s \<Rightarrow> Some s | _ \<Rightarrow> None),
      int_of_str = (\<lambda>s. None)\<rparr>"

definition demo_google :: google where
  "demo_google =
     \<lparr>exchange_code = (\<lambda>code. [(''access_token'', JStr ''at'')]),
      user_names = (\<lambda>token. Some [[(''givenName'', JStr ''Ada''), (''familyName'', JStr ''Lovelace'')]])\<rparr>"

definition demo_states :: table where
  "demo_states = [(1, [(''state'', JStr ''abc'')]), (2, [(''state'', JStr ''xyz'')])]"

definition demo_jose :: jose where
  "demo_jose =
     \<lparr>jwks_keys = [[(''kty'', JStr ''RSA''), (''kid'', JStr ''k1''), (''use'', JStr ''sig''),
                    (''n'', JStr ''AQ''), (''e'', JStr ''AQAB'')]],
      get_unverified_header =
        (\<lambda>token. if token = ''tok'' then Some [(''alg'', JStr ''RS256''), (''kid'', JStr ''k1'')]
                 else None),
      decode = (\<lambda>token rsa_key. if token = ''tok'' then Some [(''sub'', JStr ''bob'')] else None)\<rparr>"

definition demo_owned :: table where
  "demo_owned =
     [(1, [(''owner_id'', JStr ''alice''), (''name'', JStr ''A''), (''inspection_score'', JInt 90)]),
      (2, [(''owner_id'', JStr ''bob''), (''name'', JStr ''B''), (''inspection_score'', JInt 80)])]"

section \<open>Properties\<close>

subsection \<open>Dictionaries and the Datastore client\<close>

lemma keys_setitem: "fst ` set (setitem d k v) = insert k (fst ` set d)"
  by (induction d) force+

lemma has_key_setitem: "has_key (setitem d k v) k' = (k' = k \<or> has_key d k')"
  by (simp add: has_key_def keys_setitem)

lemma has_key_dict_update: "has_key (dict_update d other) k = (has_key d k \<or> has_key other k)"
proof (induction other arbitrary: d)
  case Nil
  show ?case by (simp add: has_key_def)
next
  case (Cons p other)
  obtain k' v' where p: "p = (k', v')" by (cases p)
  have "has_key (p # other) k = (k = k' \<or> has_key other k)"
    by (auto simp: has_key_def p)
  with Cons[of "setitem d k' v'"] show ?case
    by (auto simp: p has_key_setitem)
qed

lemma has_key_nonempty: "has_key d k \<Longrightarrow> d \<noteq> []"
  by (auto simp: has_key_def)

lemma map_of_setitem: "map_of (setitem d k v) k' = (if k' = k then Some v else map_of d k')"
  by (induction d) auto

text \<open>\<open>d.update(other)\<close> gives a key the last value that \<open>other\<close> has for it.\<close>

lemma map_of_dict_update:
  "map_of (dict_update d other) k
     = (case map_of (rev other) k of None \<Rightarrow> map_of d k | Some v \<Rightarrow> Some v)"
proof (induction other arbitrary: d)
  case Nil
  show ?case by simp
next
  case (Cons p other)
  obtain k' v' where p: "p = (k', v')" by (cases p)
  show ?case
    by (simp add: p Cons map_of_setitem map_add_def split: option.splits)
qed

lemma set_setitem: "set (setitem d k v) \<subseteq> insert (k, v) (set d)"
  by (induction d) (auto split: if_splits)

lemma set_dict_update: "set (dict_update d other) \<subseteq> set d \<union> set other"
proof (induction other arbitrary: d)
  case Nil
  show ?case by simp
next
  case (Cons p other)
  obtain k v where p: "p = (k, v)" by (cases p)
  from Cons[of "setitem d k v"] set_setitem[of d k v] show ?case
    by (auto simp: p)
qed

lemma storable_dict_update:
  assumes "list_all (\<lambda>(k, v). storable v) d" and "list_all (\<lambda>(k, v). storable v) other"
  shows "list_all (\<lambda>(k, v). storable v) (dict_update d other)"
  using assms set_dict_update[of d other] by (auto simp: list_all_iff)

lemma map_of_put_entity:
  "map_of (put_entity t i e) j = (if j = i then Some e else map_of t j)"
  by (induction t) auto

lemma validate_fields_empty:
  "validate_fields data fs = [] \<longleftrightarrow> list_all (has_key data) fs"
  by (induction fs) (auto simp: validate_fields_def)

lemma query_fetch_int:
  "int64 i \<Longrightarrow> query_fetch t [(f, JInt i)] = Inr (matching t [(f, JInt i)])"
  by (simp add: query_fetch_def)

lemma query_fetch_str: "query_fetch t [(f, JStr s)] = Inr (matching t [(f, JStr s)])"
  by (simp add: query_fetch_def)

subsection \<open>Create, then read (document store)\<close>

text \<open>A payload that has each of its keys once gives each the one value it has.\<close>

lemma map_of_rev_distinct: "distinct (map fst d) \<Longrightarrow> map_of (rev d) = map_of d"
  by (subst map_of_inject_set) (simp_all add: rev_map[symmetric])

text \<open>
  C9, as stated, fails: a payload that has all six required fields, with an \<open>owner_id\<close>
  of 2^63, is answered with 500 and nothing is stored, since the integer does not fit
  the store.
\<close>

theorem create_business_beyond_int64:
  "list_all (has_key (setitem demo_business ''owner_id'' (JInt (2 ^ 63))))
     [''owner_id'', ''name'', ''street_address'', ''state'', ''city'', ''zip_code'']
   \<and> create_business 7 demo_gae (setitem demo_business ''owner_id'' (JInt (2 ^ 63)))
       = (demo_gae, (500, Unhandled ValueError))"
  by (simp add: create_business_def validate_fields_def has_key_def demo_business_def
      client_put_def int64_def unhandled_def Let_def)

text \<open>
  C9, amended. For every create payload that contains all six required fields and whose
  integer values are signed 64-bit integers, POST /businesses answers 201 with a record
  whose \<open>id\<close> is the integer id assigned by the store (so not null) and whose other
  fields are those of the payload, each with the value the payload gives it (the last
  one, should the list of pairs repeat a key); the stored entity has these fields too,
  and GET /businesses/{id} with that id, on the store left by the POST, answers 200 with
  the very same record.
\<close>

theorem create_business_then_get:
  assumes "list_all (has_key data)
             [''owner_id'', ''name'', ''street_address'', ''state'', ''city'', ''zip_code'']"
    and "list_all (\<lambda>(k, v). storable v) data"
    and "datastore_id new_id"
  shows "\<exists>st' created stored.
           create_business new_id st data = (st', (201, Json created))
           \<and> map_of created ''id'' = Some (JInt new_id)
           \<and> JInt new_id \<noteq> JNull
           \<and> (\<forall>k. k \<noteq> ''id'' \<longrightarrow> map_of created k = map_of (rev data) k)
           \<and> (distinct (map fst data) \<longrightarrow>
                (\<forall>k. k \<noteq> ''id'' \<longrightarrow> map_of created k = map_of data k))
           \<and> (\<forall>k. k \<noteq> ''id'' \<longrightarrow> has_key created k = has_key data k)
           \<and> map_of (businesses st') new_id = Some stored
           \<and> (\<forall>k. map_of stored k = map_of (rev data) k)
           \<and> reviews st' = reviews st
           \<and> get_business_by_id st' new_id = (200, Json created)"
proof -
  let ?req = "[''owner_id'', ''name'', ''street_address'', ''state'', ''city'', ''zip_code'']"
  let ?e = "dict_update [] data"
  let ?st = "st\<lparr>businesses := put_entity (businesses st) new_id ?e\<rparr>"
  from assms(1) have v: "validate_fields data ?req = []"
    by (simp only: validate_fields_empty)
  from assms(1) have "has_key data ''name''" by simp
  then have "has_key ?e ''name''" by (simp add: has_key_dict_update)
  then have ne: "?e \<noteq> []" by (rule has_key_nonempty)
  have "list_all (\<lambda>(k, v). storable v) ?e"
    using assms(2) by (intro storable_dict_update) simp_all
  then have p: "client_put (businesses st) new_id ?e = Inr (put_entity (businesses st) new_id ?e)"
    by (simp add: client_put_def)
  have c: "create_business new_id st data = (?st, (201, Json (with_id new_id ?e)))"
    using v p by (simp add: create_business_def Let_def)
  have s: "map_of (businesses ?st) new_id = Some ?e"
    by (simp add: map_of_put_entity)
  have g: "get_business_by_id ?st new_id = (200, Json (with_id new_id ?e))"
    using ne assms(3) by (simp add: get_business_by_id_def map_of_put_entity datastore_id_def)
  have i: "map_of (with_id new_id ?e) ''id'' = Some (JInt new_id)"
    by (simp add: with_id_def map_of_setitem)
  have f: "\<forall>k. map_of ?e k = map_of (rev data) k"
    by (simp add: map_of_dict_update split: option.splits)
  then have f': "\<forall>k. k \<noteq> ''id'' \<longrightarrow> map_of (with_id new_id ?e) k = map_of (rev data) k"
    by (simp add: with_id_def map_of_setitem)
  have h: "\<forall>k. k \<noteq> ''id'' \<longrightarrow> has_key (with_id new_id ?e) k = has_key data k"
  proof -
    have "has_key [] k = False" for k by (simp add: has_key_def)
    then show ?thesis
      by (simp only: with_id_def has_key_setitem has_key_dict_update) simp
  qed
  have d: "distinct (map fst data) \<longrightarrow>
             (\<forall>k. k \<noteq> ''id'' \<longrightarrow> map_of (with_id new_id ?e) k = map_of data k)"
    using f' by (simp add: map_of_rev_distinct)
  have r: "reviews ?st = reviews st" by simp
  show ?thesis
  proof (intro exI conjI)
    show "create_business new_id st data = (?st, (201, Json (with_id new_id ?e)))" by (rule c)
    show "map_of (with_id new_id ?e) ''id'' = Some (JInt new_id)" by (rule i)
    show "JInt new_id \<noteq> JNull" by simp
    show "\<forall>k. k \<noteq> ''id'' \<longrightarrow> map_of (with_id new_id ?e) k = map_of (rev data) k" by (rule f')
    show "distinct (map fst data) \<longrightarrow>
            (\<forall>k. k \<noteq> ''id'' \<longrightarrow> map_of (with_id new_id ?e) k = map_of data k)" by (rule d)
    show "\<forall>k. k \<noteq> ''id'' \<longrightarrow> has_key (with_id new_id ?e) k = has_key data k" by (rule h)
    show "map_of (businesses ?st) new_id = Some ?e" by (rule s)
    show "\<forall>k. map_of ?e k = map_of (rev data) k" by (rule f)
    show "reviews ?st = reviews st" by (rule r)
    show "get_business_by_id ?st new_id = (200, Json (with_id new_id ?e))" by (rule g)
  qed
qed

theorem create_business_then_get_witness:
  "list_all (has_key demo_business)
     [''owner_id'', ''name'', ''street_address'', ''state'', ''city'', ''zip_code'']
   \<and> list_all (\<lambda>(k, v). storable v) demo_business
   \<and> datastore_id 7
   \<and> (\<exists>st' created stored.
         create_business 7 \<lparr>businesses = [], reviews = []\<rparr> demo_business
           = (st', (201, Json created))
         \<and> map_of created ''id'' = Some (JInt 7)
         \<and> map_of created ''name'' = Some (JStr ''A'')
         \<and> map_of stored ''zip_code'' = Some (JStr ''98101'')
         \<and> map_of (businesses st') 7 = Some stored
         \<and> get_business_by_id st' 7 = (200, Json created))"
proof -
  have a: "list_all (has_key demo_business)
     [''owner_id'', ''name'', ''street_address'', ''state'', ''city'', ''zip_code'']"
    by (simp add: has_key_def demo_business_def)
  have b: "list_all (\<lambda>(k, v). storable v) demo_business"
    by (simp add: demo_business_def int64_def)
  have c: "datastore_id 7" by (simp add: datastore_id_def int64_def)
  from create_business_then_get[OF a b c, of "\<lparr>businesses = [], reviews = []\<rparr>"]
  obtain st' created stored where
    1: "create_business 7 \<lparr>businesses = [], reviews = []\<rparr> demo_business
          = (st', (201, Json created))" and
    2: "map_of created ''id'' = Some (JInt 7)" and
    "JInt 7 \<noteq> JNull" and
    3: "\<forall>k. k \<noteq> ''id'' \<longrightarrow> map_of created k = map_of (rev demo_business) k" and
    "distinct (map fst demo_business) \<longrightarrow>
       (\<forall>k. k \<noteq> ''id'' \<longrightarrow> map_of created k = map_of demo_business k)" and
    "\<forall>k. k \<noteq> ''id'' \<longrightarrow> has_key created k = has_key demo_business k" and
    4: "map_of (businesses st') 7 = Some stored" and
    5: "\<forall>k. map_of stored k = map_of (rev demo_business) k" and
    "reviews st' = reviews \<lparr>businesses = [], reviews = []\<rparr>" and
    6: "get_business_by_id st' 7 = (200, Json created)"
    by (elim exE conjE)
  from 3 have 7: "map_of created ''name'' = Some (JStr ''A'')"
    by (simp add: demo_business_def)
  from 5 have 8: "map_of stored ''zip_code'' = Some (JStr ''98101'')"
    by (simp add: demo_business_def)
  have "\<exists>st' created stored.
         create_business 7 \<lparr>businesses = [], reviews = []\<rparr> demo_business
           = (st', (201, Json created))
         \<and> map_of created ''id'' = Some (JInt 7)
         \<and> map_of created ''name'' = Some (JStr ''A'')
         \<and> map_of stored ''zip_code'' = Some (JStr ''98101'')
         \<and> map_of (businesses st') 7 = Some stored
         \<and> get_business_by_id st' 7 = (200, Json created)"
    using 1 2 7 8 4 6 by (intro exI[of _ st'] exI[of _ created] exI[of _ stored] conjI)
  with a b c show ?thesis by (intro conjI)
qed

subsection \<open>Reading a business of another owner (JWT)\<close>

lemma split_bearer_tok: "split ''Bearer tok'' = [''Bearer'', ''tok'']"
  by (simp add: split_def is_space_def)

lemma verify_jwt_demo:
  "verify_jwt demo_jose [(''Authorization'', ''Bearer tok'')] = Inr (Some [(''sub'', JStr ''bob'')])"
  by (simp add: verify_jwt_def split_bearer_tok demo_jose_def getitem_def and_then_def rsa_key_of_def)

text \<open>A business that POST /businesses stores has an \<open>owner_id\<close>.\<close>

lemma businesses_post_owner_id:
  assumes "businesses_post j new_id store url_root headers content = (store', (201, created))"
  shows "\<exists>business. map_of store' new_id = Some business \<and> has_key business ''owner_id''"
proof -
  have "has_key [(''owner_id'', v)] ''owner_id''" for v
    by (simp add: has_key_def)
  then have k: "has_key (dict_update [(''owner_id'', v)] content) ''owner_id''" for v
    by (simp only: has_key_dict_update) simp
  from assms show ?thesis
    by (auto simp: businesses_post_def Let_def unhandled_def unauthorized_def client_put_def
        map_of_put_entity k split: if_splits sum.splits option.splits)
qed

text \<open>
  C1, as stated, fails: bob's valid token reading alice's business is answered with
  status 403, not 404.
\<close>

theorem get_business_other_owner_is_403:
  "verify_jwt demo_jose [(''Authorization'', ''Bearer tok'')] = Inr (Some [(''sub'', JStr ''bob'')])
   \<and> map_of demo_owned 1
       = Some [(''owner_id'', JStr ''alice''), (''name'', JStr ''A''), (''inspection_score'', JInt 90)]
   \<and> fst (get_business_jwt demo_jose demo_owned ''http://h/'' [(''Authorization'', ''Bearer tok'')] 1)
       = 403
   \<and> fst (get_business_jwt demo_jose demo_owned ''http://h/'' [(''Authorization'', ''Bearer tok'')] 1)
       \<noteq> 404"
  by (simp add: verify_jwt_demo get_business_jwt_def demo_owned_def getitem_def and_then_def
      hidden_business_def int64_def)

text \<open>
  C1, amended. For every GET /businesses/{id} request whose token verifies to claims with
  a \<open>sub\<close> that differs from the \<open>owner_id\<close> of the stored business, the answer is
  status 403 with the error "No business with this business_id exists" and nothing of the
  business; it is the very answer the same request gets when no business is stored, so
  the existence of the business is hidden.
\<close>

theorem get_business_other_owner:
  assumes "verify_jwt j headers = Inr (Some payload)"
    and "map_of payload ''sub'' = Some sub"
    and "client_get store (IdKey business_id) = Inr (Some business)"
    and "map_of business ''owner_id'' = Some owner_id"
    and "sub \<noteq> owner_id"
  shows "get_business_jwt j store url_root headers business_id = hidden_business
         \<and> hidden_business
             = (403, Json [(''Error'', JStr ''No business with this business_id exists'')])
         \<and> get_business_jwt j [] url_root headers business_id = hidden_business"
proof -
  from assms(3) have "int64 business_id" by (simp split: if_splits)
  then have "client_get [] (IdKey business_id) = Inr None" by simp
  with assms show ?thesis
    by (auto simp: get_business_jwt_def getitem_def and_then_def hidden_business_def)
qed

theorem get_business_other_owner_witness:
  "verify_jwt demo_jose [(''Authorization'', ''Bearer tok'')] = Inr (Some [(''sub'', JStr ''bob'')])
   \<and> client_get demo_owned (IdKey 1)
       = Inr (Some [(''owner_id'', JStr ''alice''), (''name'', JStr ''A''),
                    (''inspection_score'', JInt 90)])
   \<and> JStr ''bob'' \<noteq> JStr ''alice''
   \<and> get_business_jwt demo_jose demo_owned ''http://h/'' [(''Authorization'', ''Bearer tok'')] 1
       = hidden_business
   \<and> hidden_business
       = (403, Json [(''Error'', JStr ''No business with this business_id exists'')])
   \<and> get_business_jwt demo_jose [] ''http://h/'' [(''Authorization'', ''Bearer tok'')] 1
       = hidden_business"
proof -
  have g: "client_get demo_owned (IdKey 1)
       = Inr (Some [(''owner_id'', JStr ''alice''), (''name'', JStr ''A''),
                    (''inspection_score'', JInt 90)])"
    by (simp add: demo_owned_def int64_def)
  have n: "JStr ''bob'' \<noteq> JStr ''alice''" by simp
  from get_business_other_owner[OF verify_jwt_demo _ g _ n, of "''http://h/''"]
  show ?thesis using verify_jwt_demo g by simp
qed

subsection \<open>Creating a review\<close>

lemma filter_missing_empty:
  "filter (\<lambda>field. \<not> has_key data field) fs = [] \<longleftrightarrow> list_all (has_key data) fs"
  by (induction fs) auto

lemma has_key_map_of: "map_of d k = Some v \<Longrightarrow> has_key d k"
  by (auto simp: has_key_def dest: map_of_SomeD intro: rev_image_eqI)

lemma create_review_gae_conflict:
  assumes "map_of data ''user_id'' = Some user_id"
    and "map_of data ''business_id'' = Some business_id"
    and "has_key data ''stars''"
    and "client_key business_id = Inr business_key"
    and "client_get (businesses st) business_key = Inr business"
    and "\<not> falsy_entity business"
    and "query_fetch (reviews st) [(''user_id'', user_id), (''business_id'', business_id)]
           = Inr found"
    and "found \<noteq> []"
  shows "create_review_gae new_id st data = (st, conflict_response)"
proof -
  have "list_all (has_key data) [''user_id'', ''business_id'', ''stars'']"
    using assms(1-3) by (simp add: has_key_map_of)
  then have v: "validate_fields data [''user_id'', ''business_id'', ''stars''] = []"
    by (simp only: validate_fields_empty)
  show ?thesis
    using assms v by (simp add: create_review_gae_def Let_def getitem_def and_then_def)
qed

lemma create_review_sql_conflict:
  assumes "map_of content ''user_id'' = Some user_id"
    and "map_of content ''business_id'' = Some business_id"
    and "has_key content ''stars''"
    and "filter (\<lambda>b. int_eq p (b_id b) business_id) (business_rows db) = [business]"
    and "filter (\<lambda>r. int_eq p (r_user_id r) user_id \<and> int_eq p (r_business_id r) business_id)
           (review_rows db) = [review]"
  shows "create_review_sql p new_id db base_url host_url content = (db, conflict_response)"
proof -
  have "list_all (has_key content) [''user_id'', ''business_id'', ''stars'']"
    using assms(1-3) by (simp add: has_key_map_of)
  then have v: "filter (\<lambda>field. \<not> has_key content field) [''user_id'', ''business_id'', ''stars''] = []"
    by (simp only: filter_missing_empty)
  show ?thesis
    unfolding create_review_sql_def Let_def v
    using assms by (simp add: getitem_def and_then_def)
qed

lemma create_review_gae_no_business:
  assumes "map_of data ''user_id'' = Some user_id"
    and "map_of data ''business_id'' = Some (JInt business_id)"
    and "has_key data ''stars''"
    and "datastore_id business_id"
    and "falsy_entity (map_of (businesses st) business_id)"
  shows "create_review_gae new_id st data = (st, entity_not_found ''business'')"
proof -
  have "list_all (has_key data) [''user_id'', ''business_id'', ''stars'']"
    using assms(1-3) by (simp add: has_key_map_of)
  then have v: "validate_fields data [''user_id'', ''business_id'', ''stars''] = []"
    by (simp only: validate_fields_empty)
  show ?thesis
    using assms v
    by (simp add: create_review_gae_def Let_def getitem_def and_then_def datastore_id_def)
qed

lemma create_review_sql_no_business:
  assumes "map_of content ''user_id'' = Some user_id"
    and "map_of content ''business_id'' = Some business_id"
    and "has_key content ''stars''"
    and "filter (\<lambda>b. int_eq p (b_id b) business_id) (business_rows db) = []"
  shows "create_review_sql p new_id db base_url host_url content = (db, no_business)"
proof -
  have "list_all (has_key content) [''user_id'', ''business_id'', ''stars'']"
    using assms(1-3) by (simp add: has_key_map_of)
  then have v: "filter (\<lambda>field. \<not> has_key content field) [''user_id'', ''business_id'', ''stars''] = []"
    by (simp only: filter_missing_empty)
  show ?thesis
    unfolding create_review_sql_def Let_def v
    using assms by (simp add: getitem_def and_then_def)
qed

text \<open>
  C2, as stated, fails: a POST /reviews for the pair (4, 1), which has a stored review,
  but without \<open>stars\<close> is answered with 400 in both variants, not with 409.
\<close>

theorem create_review_duplicate_without_stars:
  "matching (reviews demo_gae) [(''user_id'', JInt 4), (''business_id'', JInt 1)] \<noteq> []
   \<and> fst (snd (create_review_gae 11 demo_gae [(''user_id'', JInt 4), (''business_id'', JInt 1)]))
       = 400
   \<and> filter (\<lambda>r. r_user_id r = 4 \<and> r_business_id r = 1) (review_rows demo_db) \<noteq> []
   \<and> fst (snd (create_review_sql demo_platform 11 demo_db ''http://h/reviews'' ''http://h/''
                  [(''user_id'', JInt 4), (''business_id'', JInt 1)]))
       = 400"
  by (simp add: create_review_gae_def create_review_sql_def validate_fields_def has_key_def
      missing_fields_response_def missing_attributes_def matching_def matches_def
      demo_gae_def demo_review_def demo_db_def)

text \<open>
  C2, amended. For every POST /reviews request that carries \<open>user_id\<close>, \<open>business_id\<close>
  and \<open>stars\<close>, whose \<open>business_id\<close> identifies a stored business and whose
  (\<open>user_id\<close>, \<open>business_id\<close>) pair already has a stored review (the one review of that
  pair, in the relational variant), the answer is 409 and the store is returned as it
  was: the stored review is untouched and no review is written.
\<close>

theorem create_review_duplicate:
  "(map_of data ''user_id'' = Some user_id
      \<and> map_of data ''business_id'' = Some business_id
      \<and> has_key data ''stars''
      \<and> client_key business_id = Inr business_key
      \<and> client_get (businesses st) business_key = Inr stored
      \<and> \<not> falsy_entity stored
      \<and> query_fetch (reviews st) [(''user_id'', user_id), (''business_id'', business_id)]
          = Inr found
      \<and> found \<noteq> []
    \<longrightarrow> create_review_gae new_id st data = (st, conflict_response))
   \<and> (map_of data ''user_id'' = Some user_id
      \<and> map_of data ''business_id'' = Some business_id
      \<and> has_key data ''stars''
      \<and> filter (\<lambda>b. int_eq p (b_id b) business_id) (business_rows db) = [business]
      \<and> filter (\<lambda>r. int_eq p (r_user_id r) user_id \<and> int_eq p (r_business_id r) business_id)
           (review_rows db) = [review]
    \<longrightarrow> create_review_sql p new_id db base_url host_url data = (db, conflict_response))
   \<and> fst conflict_response = 409"
proof (intro conjI impI)
  assume "map_of data ''user_id'' = Some user_id
      \<and> map_of data ''business_id'' = Some business_id
      \<and> has_key data ''stars''
      \<and> client_key business_id = Inr business_key
      \<and> client_get (businesses st) business_key = Inr stored
      \<and> \<not> falsy_entity stored
      \<and> query_fetch (reviews st) [(''user_id'', user_id), (''business_id'', business_id)]
          = Inr found
      \<and> found \<noteq> []"
  then show "create_review_gae new_id st data = (st, conflict_response)"
    using create_review_gae_conflict[of data user_id business_id business_key st stored found new_id]
    by (elim conjE) simp
next
  assume "map_of data ''user_id'' = Some user_id
      \<and> map_of data ''business_id'' = Some business_id
      \<and> has_key data ''stars''
      \<and> filter (\<lambda>b. int_eq p (b_id b) business_id) (business_rows db) = [business]
      \<and> filter (\<lambda>r. int_eq p (r_user_id r) user_id \<and> int_eq p (r_business_id r) business_id)
           (review_rows db) = [review]"
  then show "create_review_sql p new_id db base_url host_url data = (db, conflict_response)"
    using create_review_sql_conflict[of data user_id business_id p db business review new_id]
    by (elim conjE) simp
next
  show "fst conflict_response = 409" by (simp add: conflict_response_def)
qed

theorem create_review_duplicate_witness:
  "map_of [(''user_id'', JInt 4), (''business_id'', JInt 1), (''stars'', JInt 2)] ''user_id''
     = Some (JInt 4)
   \<and> client_key (JInt 1) = Inr (IdKey 1)
   \<and> client_get (businesses demo_gae) (IdKey 1) = Inr (Some demo_business)
   \<and> \<not> falsy_entity (Some demo_business)
   \<and> query_fetch (reviews demo_gae) [(''user_id'', JInt 4), (''business_id'', JInt 1)]
       = Inr [(10, demo_review)]
   \<and> create_review_gae 11 demo_gae [(''user_id'', JInt 4), (''business_id'', JInt 1), (''stars'', JInt 2)]
       = (demo_gae, conflict_response)
   \<and> create_review_sql demo_platform 11 demo_db ''http://h/reviews'' ''http://h/''
         [(''user_id'', JInt 4), (''business_id'', JInt 1), (''stars'', JInt 2)]
       = (demo_db, conflict_response)
   \<and> fst conflict_response = 409"
proof -
  have g: "client_get (businesses demo_gae) (IdKey 1) = Inr (Some demo_business)"
    by (simp add: demo_gae_def int64_def)
  have f: "\<not> falsy_entity (Some demo_business)" by (simp add: demo_business_def)
  have q: "query_fetch (reviews demo_gae) [(''user_id'', JInt 4), (''business_id'', JInt 1)]
       = Inr [(10, demo_review)]"
    by (simp add: query_fetch_def matching_def matches_def demo_gae_def demo_review_def int64_def)
  from create_review_duplicate[of "[(''user_id'', JInt 4), (''business_id'', JInt 1), (''stars'', JInt 2)]"
      "JInt 4" "JInt 1" "IdKey 1" demo_gae "Some demo_business" "[(10, demo_review)]" 11
      demo_platform demo_db
      "hd (business_rows demo_db)" "hd (review_rows demo_db)" "''http://h/reviews''" "''http://h/''"]
    g f q
  show ?thesis
    by (simp add: has_key_def demo_db_def demo_platform_def)
qed

text \<open>
  C4, as stated, fails: a POST /reviews that names the business 99, which is not stored,
  but lacks \<open>user_id\<close> and \<open>stars\<close> is answered with 400 in both variants, not with 404.
  And in the document store a complete request that names the business 2^63, which is
  not stored either, is answered with 500: the id does not fit the store and the lookup
  raises.
\<close>

theorem create_review_unknown_business_without_stars:
  "map_of (businesses demo_gae) 99 = None
   \<and> fst (snd (create_review_gae 11 demo_gae [(''business_id'', JInt 99)])) = 400
   \<and> filter (\<lambda>b. b_id b = 99) (business_rows demo_db) = []
   \<and> fst (snd (create_review_sql demo_platform 11 demo_db ''http://h/reviews'' ''http://h/''
                  [(''business_id'', JInt 99)]))
       = 400
   \<and> map_of (businesses demo_gae) (2 ^ 63) = None
   \<and> create_review_gae 11 demo_gae
         [(''user_id'', JInt 5), (''business_id'', JInt (2 ^ 63)), (''stars'', JInt 2)]
       = (demo_gae, (500, Unhandled ValueError))"
  by (simp add: create_review_gae_def create_review_sql_def validate_fields_def has_key_def
      missing_fields_response_def missing_attributes_def demo_gae_def demo_db_def
      getitem_def and_then_def int64_def unhandled_def)

text \<open>
  C4, amended. For every POST /reviews request that carries \<open>user_id\<close>, \<open>business_id\<close>
  and \<open>stars\<close> and whose \<open>business_id\<close> is an id of the store (a positive signed
  64-bit integer) under which no business is stored (in the relational variant: a value
  that matches the id of no business), the answer is 404 and the store is returned as it
  was: nothing is written.
\<close>

theorem create_review_unknown_business:
  "(map_of data ''user_id'' = Some user_id
      \<and> map_of data ''business_id'' = Some (JInt business_id)
      \<and> has_key data ''stars''
      \<and> datastore_id business_id
      \<and> falsy_entity (map_of (businesses st) business_id)
    \<longrightarrow> create_review_gae new_id st data = (st, entity_not_found ''business''))
   \<and> (map_of content ''user_id'' = Some user_id
      \<and> map_of content ''business_id'' = Some wanted
      \<and> has_key content ''stars''
      \<and> filter (\<lambda>b. int_eq p (b_id b) wanted) (business_rows db) = []
    \<longrightarrow> create_review_sql p new_id db base_url host_url content = (db, no_business))
   \<and> fst (entity_not_found ''business'') = 404
   \<and> fst no_business = 404"
proof (intro conjI impI)
  assume "map_of data ''user_id'' = Some user_id
      \<and> map_of data ''business_id'' = Some (JInt business_id)
      \<and> has_key data ''stars''
      \<and> datastore_id business_id
      \<and> falsy_entity (map_of (businesses st) business_id)"
  then show "create_review_gae new_id st data = (st, entity_not_found ''business'')"
    using create_review_gae_no_business[of data user_id business_id st new_id]
    by (elim conjE) simp
next
  assume "map_of content ''user_id'' = Some user_id
      \<and> map_of content ''business_id'' = Some wanted
      \<and> has_key content ''stars''
      \<and> filter (\<lambda>b. int_eq p (b_id b) wanted) (business_rows db) = []"
  then show "create_review_sql p new_id db base_url host_url content = (db, no_business)"
    using create_review_sql_no_business[of content user_id wanted p db new_id]
    by (elim conjE) simp
next
  show "fst (entity_not_found ''business'') = 404" by (simp add: entity_not_found_def)
next
  show "fst no_business = 404" by (simp add: no_business_def)
qed

theorem create_review_unknown_business_witness:
  "map_of [(''user_id'', JInt 5), (''business_id'', JInt 99), (''stars'', JInt 2)] ''business_id''
     = Some (JInt 99)
   \<and> datastore_id 99
   \<and> falsy_entity (map_of (businesses demo_gae) 99)
   \<and> filter (\<lambda>b. int_eq demo_platform (b_id b) (JInt 99)) (business_rows demo_db) = []
   \<and> create_review_gae 11 demo_gae [(''user_id'', JInt 5), (''business_id'', JInt 99), (''stars'', JInt 2)]
       = (demo_gae, entity_not_found ''business'')
   \<and> create_review_sql demo_platform 11 demo_db ''http://h/reviews'' ''http://h/''
         [(''user_id'', JInt 5), (''business_id'', JInt 99), (''stars'', JInt 2)]
       = (demo_db, no_business)
   \<and> fst (entity_not_found ''business'') = 404
   \<and> fst no_business = 404"
proof -
  have i: "datastore_id 99" by (simp add: datastore_id_def int64_def)
  have f: "falsy_entity (map_of (businesses demo_gae) 99)" by (simp add: demo_gae_def)
  have n: "filter (\<lambda>b. int_eq demo_platform (b_id b) (JInt 99)) (business_rows demo_db) = []"
    by (simp add: demo_db_def demo_platform_def)
  from create_review_unknown_business[of
      "[(''user_id'', JInt 5), (''business_id'', JInt 99), (''stars'', JInt 2)]"
      "JInt 5" 99 demo_gae 11
      "[(''user_id'', JInt 5), (''business_id'', JInt 99), (''stars'', JInt 2)]"
      "JInt 99" demo_platform demo_db "''http://h/reviews''" "''http://h/''"]
    i f n
  show ?thesis by (simp add: has_key_def)
qed

subsection \<open>Deleting a business\<close>

lemma fold_delete_businesses:
  "businesses (fold (\<lambda>review s. s\<lparr>reviews := client_delete (reviews s) (fst review)\<rparr>) found st)
     = businesses st"
  by (induction found arbitrary: st) auto

lemma fold_delete_reviews:
  "reviews (fold (\<lambda>review s. s\<lparr>reviews := client_delete (reviews s) (fst review)\<rparr>) found st)
     = filter (\<lambda>(j, e). j \<notin> fst ` set found) (reviews st)"
proof (induction found arbitrary: st)
  case Nil
  show ?case by simp
next
  case (Cons r found)
  have "reviews (fold (\<lambda>review s. s\<lparr>reviews := client_delete (reviews s) (fst review)\<rparr>)
                   (r # found) st)
        = filter (\<lambda>(j, e). j \<notin> fst ` set found) (client_delete (reviews st) (fst r))"
    by (simp add: Cons)
  also have "\<dots> = filter (\<lambda>(j, e). j \<notin> fst ` set (r # found)) (reviews st)"
    unfolding client_delete_def filter_filter by (rule filter_cong) auto
  finally show ?case .
qed

lemma map_of_client_delete: "map_of (client_delete t i) i = None"
  by (induction t) (auto simp: client_delete_def)

lemma one_or_none_unique:
  assumes "distinct (map f xs)" and "x \<in> set xs"
  shows "filter (\<lambda>y. f y = f x) xs = [x]"
  using assms
proof (induction xs)
  case Nil
  then show ?case by simp
next
  case (Cons a xs)
  show ?case
  proof (cases "a = x")
    case True
    with Cons.prems have "f x \<notin> f ` set xs" by simp
    then have "\<forall>y\<in>set xs. f y \<noteq> f x" by (metis imageI)
    then have "filter (\<lambda>y. f y = f x) xs = []" by (simp add: filter_empty_conv)
    with True show ?thesis by simp
  next
    case False
    with Cons.prems have "x \<in> set xs" and "f a \<noteq> f x" by auto
    with Cons show ?thesis by simp
  qed
qed

text \<open>
  C3. For every stored business, DELETE /businesses/{id} answers 204, and in the store it
  leaves the business is gone, no review has that \<open>business_id\<close>, and the query for the
  reviews of that business returns nothing. In the document store a stored business has
  at least one property (POST /businesses requires six); in the relational store \<open>id\<close>
  is the primary key of the table.
\<close>

theorem delete_business_cascades:
  "(client_get (businesses st) (IdKey business_id) = Inr (Some business) \<and> business \<noteq> []
      \<longrightarrow> (\<exists>st'. delete_business_by_id st business_id = (st', (204, Text []))
            \<and> map_of (businesses st') business_id = None
            \<and> (\<forall>(i, review) \<in> set (reviews st').
                  map_of review ''business_id'' \<noteq> Some (JInt business_id))
            \<and> query_fetch (reviews st') [(''business_id'', JInt business_id)] = Inr []))
   \<and> (distinct (map b_id (business_rows db)) \<and> row \<in> set (business_rows db)
      \<longrightarrow> (\<exists>db'. delete_business_sql db (b_id row) = (db', (204, Text []))
            \<and> filter (\<lambda>b. b_id b = b_id row) (business_rows db') = []
            \<and> (\<forall>review \<in> set (review_rows db'). r_business_id review \<noteq> b_id row)
            \<and> filter (\<lambda>r. r_business_id r = b_id row) (review_rows db') = []))"
proof (intro conjI impI)
  assume h: "client_get (businesses st) (IdKey business_id) = Inr (Some business) \<and> business \<noteq> []"
  then have i: "int64 business_id" by (simp split: if_splits)
  let ?found = "matching (reviews st) [(''business_id'', JInt business_id)]"
  let ?st1 = "fold (\<lambda>review s. s\<lparr>reviews := client_delete (reviews s) (fst review)\<rparr>) ?found st"
  let ?st2 = "?st1\<lparr>businesses := client_delete (businesses ?st1) business_id\<rparr>"
  have d: "delete_business_by_id st business_id = (?st2, (204, Text []))"
    using h i by (simp add: delete_business_by_id_def Let_def query_fetch_int)
  have r: "reviews ?st2 = filter (\<lambda>(j, e). j \<notin> fst ` set ?found) (reviews st)"
    by (simp add: fold_delete_reviews)
  have b: "map_of (businesses ?st2) business_id = None"
    by (simp add: map_of_client_delete)
  have n: "\<forall>(i, review) \<in> set (reviews ?st2).
             map_of review ''business_id'' \<noteq> Some (JInt business_id)"
    unfolding r by (force simp: matching_def matches_def)
  then have "matching (reviews ?st2) [(''business_id'', JInt business_id)] = []"
    by (auto simp: matching_def matches_def filter_empty_conv)
  with i have q: "query_fetch (reviews ?st2) [(''business_id'', JInt business_id)] = Inr []"
    by (simp add: query_fetch_int)
  show "\<exists>st'. delete_business_by_id st business_id = (st', (204, Text []))
            \<and> map_of (businesses st') business_id = None
            \<and> (\<forall>(i, review) \<in> set (reviews st').
                  map_of review ''business_id'' \<noteq> Some (JInt business_id))
            \<and> query_fetch (reviews st') [(''business_id'', JInt business_id)] = Inr []"
    using d b n q by (intro exI[of _ ?st2] conjI)
next
  assume h: "distinct (map b_id (business_rows db)) \<and> row \<in> set (business_rows db)"
  then have "filter (\<lambda>b. b_id b = b_id row) (business_rows db) = [row]"
    by (simp add: one_or_none_unique)
  then show "\<exists>db'. delete_business_sql db (b_id row) = (db', (204, Text []))
            \<and> filter (\<lambda>b. b_id b = b_id row) (business_rows db') = []
            \<and> (\<forall>review \<in> set (review_rows db'). r_business_id review \<noteq> b_id row)
            \<and> filter (\<lambda>r. r_business_id r = b_id row) (review_rows db') = []"
    by (simp add: delete_business_sql_def filter_empty_conv)
qed

theorem delete_business_cascades_witness:
  "client_get (businesses demo_gae) (IdKey 1) = Inr (Some demo_business) \<and> demo_business \<noteq> []
   \<and> matching (reviews demo_gae) [(''business_id'', JInt 1)] \<noteq> []
   \<and> (\<exists>st'. delete_business_by_id demo_gae 1 = (st', (204, Text []))
            \<and> map_of (businesses st') 1 = None
            \<and> (\<forall>(i, review) \<in> set (reviews st'). map_of review ''business_id'' \<noteq> Some (JInt 1))
            \<and> query_fetch (reviews st') [(''business_id'', JInt 1)] = Inr [])
   \<and> distinct (map b_id (business_rows demo_db))
   \<and> hd (business_rows demo_db) \<in> set (business_rows demo_db)
   \<and> b_id (hd (business_rows demo_db)) = 1
   \<and> filter (\<lambda>r. r_business_id r = 1) (review_rows demo_db) \<noteq> []
   \<and> (\<exists>db'. delete_business_sql demo_db 1 = (db', (204, Text []))
            \<and> filter (\<lambda>b. b_id b = 1) (business_rows db') = []
            \<and> (\<forall>review \<in> set (review_rows db'). r_business_id review \<noteq> 1)
            \<and> filter (\<lambda>r. r_business_id r = 1) (review_rows db') = [])"
proof -
  have a: "client_get (businesses demo_gae) (IdKey 1) = Inr (Some demo_business)
           \<and> demo_business \<noteq> []"
    by (simp add: demo_gae_def demo_business_def int64_def)
  have b: "distinct (map b_id (business_rows demo_db))
           \<and> hd (business_rows demo_db) \<in> set (business_rows demo_db)"
    by (simp add: demo_db_def)
  have c: "b_id (hd (business_rows demo_db)) = 1" by (simp add: demo_db_def)
  have q: "matching (reviews demo_gae) [(''business_id'', JInt 1)] \<noteq> []"
    by (simp add: matching_def matches_def demo_gae_def demo_review_def)
  have f: "filter (\<lambda>r. r_business_id r = 1) (review_rows demo_db) \<noteq> []"
    by (simp add: demo_db_def)
  from delete_business_cascades[of demo_gae 1 demo_business demo_db "hd (business_rows demo_db)"]
    a b c q f
  show ?thesis by simp
qed

subsection \<open>The paginated listing\<close>

text \<open>
  C5, as stated, fails: with the limit -1, which the query string can give, no response
  has at most -1 entries; the statement is rejected and the answer is 500, without
  entries and without a \<open>next\<close> field.
\<close>

theorem list_businesses_negative_limit:
  "list_businesses demo_db ''http://h/businesses'' 0 (- 1) = (500, Caught DatabaseError)
   \<and> \<not> (\<exists>entries next_url.
          list_businesses demo_db ''http://h/businesses'' 0 (- 1)
            = (200, JsonPage entries next_url)
          \<and> int (length entries) \<le> - 1
          \<and> (next_url \<noteq> JNull \<longleftrightarrow> int (length entries) = - 1))"
  by (simp add: list_businesses_def row_count_def caught_def)

text \<open>
  C5, amended. For every table of businesses and every limit \<open>L\<close> and offset that
  \<open>LIMIT\<close> and \<open>OFFSET\<close> accept (integers from 0 to 2^64 - 1), GET /businesses answers
  200 with at most \<open>L\<close> entries, and its \<open>next\<close> field is not null exactly when it
  returns \<open>L\<close> entries.
\<close>

theorem list_businesses_page:
  assumes "row_count limit" and "row_count offset"
  shows "\<exists>entries next_url.
           list_businesses db base_url offset limit = (200, JsonPage entries next_url)
           \<and> int (length entries) \<le> limit
           \<and> (next_url \<noteq> JNull \<longleftrightarrow> int (length entries) = limit)"
proof -
  let ?found = "take (nat limit) (drop (nat offset) (sort_key b_id (business_rows db)))"
  let ?entries =
    "map (\<lambda>business. business_entry (base_url @ ''/'' @ str_int (b_id business)) business) ?found"
  let ?next = "if int (length ?found) = limit
               then JStr (base_url @ ''?offset='' @ str_int (offset + limit)
                            @ ''&limit='' @ str_int limit)
               else JNull"
  have r: "list_businesses db base_url offset limit = (200, JsonPage ?entries ?next)"
    using assms by (simp add: list_businesses_def Let_def)
  from assms have z: "0 \<le> limit" by (simp add: row_count_def)
  have "length ?found \<le> nat limit" by simp
  with z have l: "int (length ?entries) \<le> limit" by simp
  have n: "?next \<noteq> JNull \<longleftrightarrow> int (length ?entries) = limit"
    by (simp only: length_map) simp
  show ?thesis
    using r l n by (intro exI[of _ ?entries] exI[of _ ?next] conjI)
qed

theorem list_businesses_page_witness:
  "row_count 1 \<and> row_count 0
   \<and> (\<exists>entries next_url.
         list_businesses demo_db ''http://h/businesses'' 0 1 = (200, JsonPage entries next_url)
         \<and> int (length entries) \<le> 1
         \<and> (next_url \<noteq> JNull \<longleftrightarrow> int (length entries) = 1))"
proof -
  have a: "row_count 1" and b: "row_count 0" by (simp_all add: row_count_def)
  from list_businesses_page[OF a b, of demo_db "''http://h/businesses''"] a b
  show ?thesis by (intro conjI)
qed

lemma list_businesses_rejected:
  "\<not> (row_count limit \<and> row_count offset)
     \<Longrightarrow> list_businesses db base_url offset limit = caught DatabaseError"
  by (simp add: list_businesses_def)

subsection \<open>Listings without a match\<close>

text \<open>
  C6, as stated, fails: in the relational variant the listing of the businesses of an
  owner without businesses, and of the reviews of a user without reviews, is answered
  with 404. And in the document store the listing for the owner 2^63, who has no
  business, is answered with 500: the id does not fit the store and the query raises.
\<close>

theorem list_without_match_is_404:
  "filter (\<lambda>b. b_owner_id b = 7) (business_rows demo_db) = []
   \<and> fst (list_businesses_for_owner_sql demo_db ''http://h/'' 7) = 404
   \<and> filter (\<lambda>r. r_user_id r = 7) (review_rows demo_db) = []
   \<and> fst (get_reviews_for_user demo_db ''http://h/'' 7) = 404
   \<and> matching (businesses demo_gae) [(''owner_id'', JInt (2 ^ 63))] = []
   \<and> list_businesses_for_owner_gae demo_gae (2 ^ 63) = (500, Unhandled ValueError)"
  by (simp add: list_businesses_for_owner_sql_def get_reviews_for_user_def demo_db_def
      list_businesses_for_owner_gae_def query_fetch_def matching_def matches_def
      demo_gae_def demo_business_def int64_def unhandled_def)

text \<open>
  C6, amended. When no record matches, the document-store variant answers both list
  operations with 200 and an empty list, for an owner or user id that is a signed 64-bit
  integer; the relational variant answers GET /owners/{owner_id}/businesses with 404
  and the error "No businesses found for this owner", and GET /users/{user_id}/reviews
  with 404 and an empty list.
\<close>

theorem list_without_match:
  "(int64 owner_id \<and> matching (businesses st) [(''owner_id'', JInt owner_id)] = []
      \<longrightarrow> list_businesses_for_owner_gae st owner_id = (200, JsonList []))
   \<and> (int64 user_id \<and> matching (reviews st) [(''user_id'', JInt user_id)] = []
      \<longrightarrow> list_reviews_for_user st user_id = (200, JsonList []))
   \<and> (filter (\<lambda>b. b_owner_id b = owner_id) (business_rows db) = []
      \<longrightarrow> list_businesses_for_owner_sql db host_url owner_id
            = (404, Json [(''Error'', JStr ''No businesses found for this owner'')]))
   \<and> (filter (\<lambda>r. r_user_id r = user_id) (review_rows db) = []
      \<longrightarrow> get_reviews_for_user db host_url user_id = (404, JsonList []))"
  by (simp add: list_businesses_for_owner_gae_def list_reviews_for_user_def
      list_businesses_for_owner_sql_def get_reviews_for_user_def query_fetch_int)

theorem list_without_match_witness:
  "int64 7
   \<and> matching (businesses demo_gae) [(''owner_id'', JInt 7)] = []
   \<and> list_businesses_for_owner_gae demo_gae 7 = (200, JsonList [])
   \<and> matching (reviews demo_gae) [(''user_id'', JInt 7)] = []
   \<and> list_reviews_for_user demo_gae 7 = (200, JsonList [])
   \<and> filter (\<lambda>b. b_owner_id b = 7) (business_rows demo_db) = []
   \<and> list_businesses_for_owner_sql demo_db ''http://h/'' 7
       = (404, Json [(''Error'', JStr ''No businesses found for this owner'')])
   \<and> filter (\<lambda>r. r_user_id r = 7) (review_rows demo_db) = []
   \<and> get_reviews_for_user demo_db ''http://h/'' 7 = (404, JsonList [])"
proof -
  have i: "int64 7" by (simp add: int64_def)
  have a: "matching (businesses demo_gae) [(''owner_id'', JInt 7)] = []"
    by (simp add: matching_def matches_def demo_gae_def demo_business_def)
  have b: "matching (reviews demo_gae) [(''user_id'', JInt 7)] = []"
    by (simp add: matching_def matches_def demo_gae_def demo_review_def)
  have c: "filter (\<lambda>b. b_owner_id b = 7) (business_rows demo_db) = []"
    by (simp add: demo_db_def)
  have d: "filter (\<lambda>r. r_user_id r = 7) (review_rows demo_db) = []"
    by (simp add: demo_db_def)
  from list_without_match[of 7 demo_gae 7 demo_db "''http://h/''"] i a b c d
  show ?thesis by simp
qed

subsection \<open>Updating a business with missing fields\<close>

text \<open>
  C7 does not hold in the document-store variant. PUT /businesses/1 for the stored
  business 1 with a body that has only \<open>owner_id\<close> is answered with 404: the handler
  passes the list of missing fields to \<open>entity_not_found\<close> where POST /businesses calls
  \<open>missing_fields_response\<close>. Its list of required fields also lacks \<open>state\<close>, so a
  body without \<open>state\<close> is accepted with 200; and for a business that is not stored the
  answer is 404 whatever the body.
\<close>

theorem edit_business_missing_fields_is_404:
  "map_of (businesses demo_gae) 1 = Some demo_business
   \<and> edit_business_gae demo_gae 1 [(''owner_id'', JInt 1)]
       = (demo_gae,
          entity_not_found (str_fields [''name'', ''street_address'', ''city'', ''zip_code'']))
   \<and> fst (snd (edit_business_gae demo_gae 1 [(''owner_id'', JInt 1)])) = 404
   \<and> fst (snd (edit_business_gae demo_gae 1
          [(''owner_id'', JInt 1), (''name'', JStr ''B''), (''street_address'', JStr ''2 St''),
           (''city'', JStr ''Y''), (''zip_code'', JStr ''98102'')])) = 200
   \<and> fst (snd (edit_business_gae demo_gae 99 [(''owner_id'', JInt 1)])) = 404"
  by (simp add: edit_business_gae_def validate_fields_def has_key_def entity_not_found_def
      demo_gae_def demo_business_def Let_def int64_def client_put_def)

text \<open>
  The relational variant does what C7 says: a body that lacks one of the six required
  fields is answered with 400 before the table is read.
\<close>

lemma edit_business_sql_missing_fields:
  assumes "\<not> list_all (has_key content)
             [''owner_id'', ''name'', ''street_address'', ''city'', ''state'', ''zip_code'']"
  shows "edit_business_sql p db base_url business_id content = (db, missing_attributes)
         \<and> fst missing_attributes = 400"
proof -
  from assms have "filter (\<lambda>field. \<not> has_key content field)
      [''owner_id'', ''name'', ''street_address'', ''city'', ''state'', ''zip_code''] \<noteq> []"
    by (simp only: filter_missing_empty) simp
  then show ?thesis
    by (simp only: edit_business_sql_def Let_def missing_attributes_def) simp
qed

subsection \<open>The anti-forgery state (OAuth)\<close>

lemma query_state:
  "matching states [(''state'', JStr s)]
     = filter (\<lambda>x. map_of (snd x) ''state'' = Some (JStr s)) states"
  by (simp add: matching_def matches_def case_prod_unfold)

lemma matching_state_unique:
  assumes "unique_states states" and "(i, e) \<in> set states"
    and "map_of e ''state'' = Some (JStr s)"
  shows "matching states [(''state'', JStr s)] = [(i, e)]"
proof -
  from assms(1) have "distinct (map (\<lambda>x. map_of (snd x) ''state'') states)"
    by (simp add: unique_states_def)
  from one_or_none_unique[OF this assms(2)] assms(3)
  show ?thesis by (simp add: query_state)
qed

lemma delete_only_that:
  assumes "distinct (map fst states)" and "(i, e) \<in> set states"
  shows "client_delete states i = filter (\<lambda>x. x \<noteq> (i, e)) states"
proof -
  have "\<forall>x \<in> set states. (fst x \<noteq> i) = (x \<noteq> (i, e))"
    using assms by (auto dest: eq_key_imp_eq_value)
  then show ?thesis
    unfolding client_delete_def split_def by (intro filter_cong) auto
qed

lemma verify_state_match:
  assumes "unique_states states" and "matching states [(''state'', JStr s)] \<noteq> []"
  shows "\<exists>i e. (i, e) \<in> set states \<and> map_of e ''state'' = Some (JStr s)
           \<and> verify_state states s = Inr (filter (\<lambda>x. x \<noteq> (i, e)) states, True)
           \<and> matching (filter (\<lambda>x. x \<noteq> (i, e)) states) [(''state'', JStr s)] = []"
proof -
  from assms(2) obtain i e where m: "(i, e) \<in> set (matching states [(''state'', JStr s)])"
    by (cases "matching states [(''state'', JStr s)]") auto
  then have ie: "(i, e) \<in> set states" and st: "map_of e ''state'' = Some (JStr s)"
    by (auto simp: query_state)
  have q: "matching states [(''state'', JStr s)] = [(i, e)]"
    by (rule matching_state_unique[OF assms(1) ie st])
  from assms(1) have "distinct (map fst states)" by (simp add: unique_states_def)
  then have d: "client_delete states i = filter (\<lambda>x. x \<noteq> (i, e)) states"
    using ie by (rule delete_only_that)
  have v: "verify_state states s = Inr (filter (\<lambda>x. x \<noteq> (i, e)) states, True)"
    by (simp add: verify_state_def query_fetch_str and_then_def q d)
  from q have "set (filter (\<lambda>x. map_of (snd x) ''state'' = Some (JStr s)) states) = {(i, e)}"
    by (simp add: query_state)
  then have "\<forall>x \<in> set states. map_of (snd x) ''state'' = Some (JStr s) \<longrightarrow> x = (i, e)"
    by auto
  then have e: "matching (filter (\<lambda>x. x \<noteq> (i, e)) states) [(''state'', JStr s)] = []"
    by (auto simp: query_state filter_empty_conv)
  from ie st v e show ?thesis by blast
qed

lemma verify_state_no_match:
  "matching states [(''state'', JStr s)] = [] \<Longrightarrow> verify_state states s = Inr (states, False)"
  by (simp add: verify_state_def query_fetch_str and_then_def)

lemma callback_rejects:
  "matching states [(''state'', JStr s)] = []
     \<Longrightarrow> oauth_callback g states code (Some s) = (states, state_verification_failed)"
  by (simp add: oauth_callback_def verify_state_no_match)

lemma callback_accepts:
  assumes "s \<noteq> []" and "verify_state states s = Inr (states', True)"
  shows "\<exists>r. oauth_callback g states code (Some s) = (states', r) \<and> r \<noteq> state_verification_failed"
  using assms
  by (auto simp: oauth_callback_def Let_def state_verification_failed_def unhandled_def
      split: sum.splits)

lemma callback_never_adds: "set (fst (oauth_callback g states code state)) \<subseteq> set states"
  by (auto simp: oauth_callback_def verify_state_def query_fetch_str and_then_def
      client_delete_def Let_def
      split: option.splits list.splits sum.splits prod.splits bool.splits if_splits)

lemma put_entity_subset: "set (put_entity t i e) \<subseteq> insert (i, e) (set t)"
  by (induction t) (auto split: if_splits)

lemma store_state_stores:
  "store_state new_id states s = Inr (put_entity states new_id [(''state'', JStr s)])"
  by (simp add: store_state_def client_put_def)

lemma handle_keeps_consumed:
  assumes "matching states [(''state'', JStr s)] = []"
    and "\<forall>i. ev \<noteq> Login i s"
  shows "matching (handle g ev states) [(''state'', JStr s)] = []"
proof (cases ev)
  case (Login i t)
  with assms(2) have ts: "t \<noteq> s" by auto
  have "set (handle g ev states) \<subseteq> insert (i, [(''state'', JStr t)]) (set states)"
    using put_entity_subset by (simp add: Login welcome_page_def store_state_stores)
  with assms(1) ts show ?thesis
    by (auto simp: query_state filter_empty_conv)
next
  case (Callback code st)
  have "set (handle g ev states) \<subseteq> set states"
    by (simp add: Callback callback_never_adds)
  with assms(1) show ?thesis
    by (auto simp: query_state filter_empty_conv)
qed

lemma serve_keeps_consumed:
  assumes "matching states [(''state'', JStr s)] = []"
    and "\<forall>i. Login i s \<notin> set events"
  shows "matching (serve g events states) [(''state'', JStr s)] = []"
  using assms
proof (induction events arbitrary: states)
  case Nil
  then show ?case by (simp add: serve_def)
next
  case (Cons ev events)
  from Cons.prems have "\<forall>i. ev \<noteq> Login i s" by auto
  with Cons.prems(1) have "matching (handle g ev states) [(''state'', JStr s)] = []"
    by (rule handle_keeps_consumed)
  moreover from Cons.prems have "\<forall>i. Login i s \<notin> set events" by auto
  ultimately have "matching (serve g events (handle g ev states)) [(''state'', JStr s)] = []"
    by (rule Cons.IH)
  then show ?case by (simp add: serve_def)
qed

lemma store_state_unique:
  assumes "unique_states states" and "new_id \<notin> fst ` set states"
    and "matching states [(''state'', JStr s)] = []"
  shows "\<exists>stored. store_state new_id states s = Inr stored \<and> unique_states stored"
proof -
  have p: "put_entity states new_id e = states @ [(new_id, e)]" for e
    using assms(2) by (induction states) auto
  from assms(3) have "Some (JStr s) \<notin> (\<lambda>x. map_of (snd x) ''state'') ` set states"
    by (auto simp: query_state filter_empty_conv)
  with assms(1,2) show ?thesis
    by (simp add: unique_states_def store_state_stores p)
qed

lemma verify_state_unique:
  "unique_states states \<Longrightarrow> verify_state states s = Inr (states', ok) \<Longrightarrow> unique_states states'"
  by (auto simp: unique_states_def verify_state_def query_fetch_str and_then_def
      client_delete_def distinct_map_filter split: list.splits)

text \<open>
  C8. Let the stored states be pairwise different and stored under different ids, as
  \<open>welcome\<close> leaves them when every login draws a fresh token. A callback that presents
  a stored, non-empty state passes the verification and removes that state from the
  store, leaving every other state as it was; after any further requests, among which
  no login stores that state again, a callback that presents the same state is
  answered with 400 "State verification failed". So is a callback whose
  state matches no stored state, or is empty or absent, and it leaves the store
  unchanged. No callback adds a state.
\<close>

theorem state_token_single_use:
  assumes "unique_states states"
  shows "(s \<noteq> [] \<and> matching states [(''state'', JStr s)] \<noteq> [] \<longrightarrow>
           (\<exists>states' r. oauth_callback g states code (Some s) = (states', r)
              \<and> r \<noteq> state_verification_failed
              \<and> matching states' [(''state'', JStr s)] = []
              \<and> (\<forall>s'. s' \<noteq> s \<longrightarrow>
                    matching states' [(''state'', JStr s')]
                      = matching states [(''state'', JStr s')])
              \<and> (\<forall>events code'. (\<forall>i. Login i s \<notin> set events) \<longrightarrow>
                    oauth_callback g (serve g events states') code' (Some s)
                      = (serve g events states', state_verification_failed))))
         \<and> (matching states [(''state'', JStr s)] = [] \<longrightarrow>
              oauth_callback g states code (Some s) = (states, state_verification_failed))
         \<and> oauth_callback g states code (Some []) = (states, state_verification_failed)
         \<and> oauth_callback g states code None = (states, state_verification_failed)
         \<and> set (fst (oauth_callback g states code state)) \<subseteq> set states
         \<and> state_verification_failed = (400, Text ''State verification failed'')"
proof (intro conjI impI)
  assume h: "s \<noteq> [] \<and> matching states [(''state'', JStr s)] \<noteq> []"
  with verify_state_match[OF assms] obtain i e where
    ie: "(i, e) \<in> set states" and st: "map_of e ''state'' = Some (JStr s)" and
    v: "verify_state states s = Inr (filter (\<lambda>x. x \<noteq> (i, e)) states, True)" and
    q: "matching (filter (\<lambda>x. x \<noteq> (i, e)) states) [(''state'', JStr s)] = []"
    by blast
  let ?states = "filter (\<lambda>x. x \<noteq> (i, e)) states"
  from callback_accepts[OF _ v] h obtain r where
    r: "oauth_callback g states code (Some s) = (?states, r)" "r \<noteq> state_verification_failed"
    by blast
  have others: "\<forall>s'. s' \<noteq> s \<longrightarrow>
       matching ?states [(''state'', JStr s')] = matching states [(''state'', JStr s')]"
  proof (intro allI impI)
    fix s' :: string
    assume "s' \<noteq> s"
    with st show "matching ?states [(''state'', JStr s')] = matching states [(''state'', JStr s')]"
      unfolding query_state filter_filter by (intro filter_cong) auto
  qed
  have later: "\<forall>events code'. (\<forall>i. Login i s \<notin> set events) \<longrightarrow>
                  oauth_callback g (serve g events ?states) code' (Some s)
                    = (serve g events ?states, state_verification_failed)"
  proof (intro allI impI)
    fix events :: "event list" and code' :: "string option"
    assume "\<forall>i. Login i s \<notin> set events"
    with q have "matching (serve g events ?states) [(''state'', JStr s)] = []"
      by (rule serve_keeps_consumed)
    then show "oauth_callback g (serve g events ?states) code' (Some s)
                 = (serve g events ?states, state_verification_failed)"
      by (rule callback_rejects)
  qed
  from r q others later
  show "\<exists>states' r. oauth_callback g states code (Some s) = (states', r)
              \<and> r \<noteq> state_verification_failed
              \<and> matching states' [(''state'', JStr s)] = []
              \<and> (\<forall>s'. s' \<noteq> s \<longrightarrow>
                    matching states' [(''state'', JStr s')]
                      = matching states [(''state'', JStr s')])
              \<and> (\<forall>events code'. (\<forall>i. Login i s \<notin> set events) \<longrightarrow>
                    oauth_callback g (serve g events states') code' (Some s)
                      = (serve g events states', state_verification_failed))"
    by blast
next
  assume "matching states [(''state'', JStr s)] = []"
  then show "oauth_callback g states code (Some s) = (states, state_verification_failed)"
    by (rule callback_rejects)
next
  show "oauth_callback g states code (Some []) = (states, state_verification_failed)"
    by (simp add: oauth_callback_def)
next
  show "oauth_callback g states code None = (states, state_verification_failed)"
    by (simp add: oauth_callback_def)
next
  show "set (fst (oauth_callback g states code state)) \<subseteq> set states"
    by (rule callback_never_adds)
next
  show "state_verification_failed = (400, Text ''State verification failed'')"
    by (simp add: state_verification_failed_def)
qed

theorem state_token_single_use_witness:
  "unique_states demo_states
   \<and> ''abc'' \<noteq> []
   \<and> matching demo_states [(''state'', JStr ''abc'')] \<noteq> []
   \<and> (\<exists>states' r. oauth_callback demo_google demo_states (Some ''c0'') (Some ''abc'') = (states', r)
          \<and> r \<noteq> state_verification_failed
          \<and> matching states' [(''state'', JStr ''abc'')] = []
          \<and> (\<forall>code'. oauth_callback demo_google
                           (serve demo_google [Callback None (Some ''xyz''), Login 3 ''new''] states')
                           code' (Some ''abc'')
                         = (serve demo_google [Callback None (Some ''xyz''), Login 3 ''new''] states',
                            state_verification_failed)))
   \<and> matching demo_states [(''state'', JStr ''nope'')] = []
   \<and> oauth_callback demo_google demo_states (Some ''c0'') (Some ''nope'')
       = (demo_states, state_verification_failed)"
proof -
  have u: "unique_states demo_states"
    by (simp add: unique_states_def demo_states_def)
  have a: "matching demo_states [(''state'', JStr ''abc'')] \<noteq> []"
    by (simp add: query_state demo_states_def)
  have n: "matching demo_states [(''state'', JStr ''nope'')] = []"
    by (simp add: query_state demo_states_def)
  have ne: "''abc'' \<noteq> []" by simp
  have l: "\<forall>i. Login i ''abc'' \<notin> set [Callback None (Some ''xyz''), Login 3 ''new'']"
    by simp
  note t = state_token_single_use[OF u, of _ demo_google "Some ''c0''"]
  from mp[OF conjunct1[OF t] conjI[OF ne a]]
  obtain states' r where
    c1: "oauth_callback demo_google demo_states (Some ''c0'') (Some ''abc'') = (states', r)" and
    c2: "r \<noteq> state_verification_failed" and
    c3: "matching states' [(''state'', JStr ''abc'')] = []" and
    c4: "\<forall>events code'. (\<forall>i. Login i ''abc'' \<notin> set events) \<longrightarrow>
           oauth_callback demo_google (serve demo_google events states') code' (Some ''abc'')
             = (serve demo_google events states', state_verification_failed)"
    by (elim exE conjE)
  have c5: "\<forall>code'. oauth_callback demo_google
                  (serve demo_google [Callback None (Some ''xyz''), Login 3 ''new''] states')
                  code' (Some ''abc'')
                = (serve demo_google [Callback None (Some ''xyz''), Login 3 ''new''] states',
                   state_verification_failed)"
    by (intro allI) (rule c4[THEN spec, THEN spec, THEN mp, OF l])
  have 1: "\<exists>states' r. oauth_callback demo_google demo_states (Some ''c0'') (Some ''abc'') = (states', r)
          \<and> r \<noteq> state_verification_failed
          \<and> matching states' [(''state'', JStr ''abc'')] = []
          \<and> (\<forall>code'. oauth_callback demo_google
                           (serve demo_google [Callback None (Some ''xyz''), Login 3 ''new''] states')
                           code' (Some ''abc'')
                         = (serve demo_google [Callback None (Some ''xyz''), Login 3 ''new''] states',
                            state_verification_failed))"
    using c1 c2 c3 c5 by (intro exI[of _ states'] exI[of _ r] conjI)
  have 2: "oauth_callback demo_google demo_states (Some ''c0'') (Some ''nope'')
       = (demo_states, state_verification_failed)"
    by (rule mp[OF conjunct1[OF conjunct2[OF t]] n])
  show ?thesis
    by (intro conjI) (rule u ne a 1 n 2)+
qed


subsection \<open>Listing businesses without a valid token (JWT)\<close>

lemma verify_jwt_no_header:
  "map_of headers ''Authorization'' = None \<Longrightarrow> verify_jwt j headers = Inr None"
  by (simp add: verify_jwt_def)

lemma verify_jwt_malformed_token:
  assumes "map_of headers ''Authorization'' = Some authorization"
    and "split authorization = scheme # token # rest"
    and "get_unverified_header j token = None"
  shows "verify_jwt j headers = Inr None"
  using assms by (simp add: verify_jwt_def)

lemma verify_jwt_rejected_token:
  assumes "map_of headers ''Authorization'' = Some authorization"
    and "split authorization = scheme # token # rest"
    and "get_unverified_header j token = Some unverified_header"
    and "map_of unverified_header ''alg'' = Some alg"
    and "select_rsa_key (jwks_keys j) unverified_header [] = Inr rsa_key"
    and "alg = JStr ''HS256'' \<or> rsa_key = [] \<or> decode j token rsa_key = None"
  shows "verify_jwt j headers = Inr None"
  using assms by (auto simp: verify_jwt_def getitem_def and_then_def)

lemma verify_jwt_one_word:
  assumes "map_of headers ''Authorization'' = Some authorization"
    and "length (split authorization) < 2"
  shows "verify_jwt j headers = Inl IndexError"
  using assms by (auto simp: verify_jwt_def split: list.splits)

text \<open>
  Where \<open>verify_jwt\<close> returns None (no Authorization header, or a token that the
  library or the key set rejects), the listing is answered with 200 and one entry for
  every stored business, in order, each with its \<open>owner_id\<close> and with \<open>inspection_score\<close>
  null.
\<close>

lemma businesses_list_unauthenticated:
  assumes "verify_jwt j headers = Inr None"
  shows "\<exists>listed. businesses_list j store base_url headers = (200, JsonList listed)
           \<and> map (\<lambda>e. map_of e ''id'') listed = map (\<lambda>x. Some (JInt (fst x))) store
           \<and> map (\<lambda>e. map_of e ''owner_id'') listed
               = map (\<lambda>x. Some (dict_get (snd x) ''owner_id'')) store
           \<and> list_all (\<lambda>e. map_of e ''inspection_score'' = Some JNull) listed"
  using assms
  by (simp add: businesses_list_def Let_def case_prod_unfold list_all_iff comp_def)

text \<open>
  C10 does not hold for every request without a valid token. A request whose
  Authorization header is the single word \<open>Bearer\<close>, so that the token is missing, is
  not answered with 200: \<open>auth_header[1]\<close> raises \<open>IndexError\<close>, which nothing catches, and
  the request ends with status 500. Without the header the same store is listed in full
  with status 200, as C10 says.
\<close>

theorem businesses_list_bearer_without_token:
  "split ''Bearer'' = [''Bearer'']
   \<and> verify_jwt demo_jose [(''Authorization'', ''Bearer'')] = Inl IndexError
   \<and> businesses_list demo_jose demo_owned ''http://h/'' [(''Authorization'', ''Bearer'')]
       = (500, Unhandled IndexError)
   \<and> businesses_list demo_jose demo_owned ''http://h/'' []
       = (200, JsonList
           [[(''id'', JInt 1), (''owner_id'', JStr ''alice''), (''name'', JStr ''A''),
             (''street_address'', JNull), (''city'', JNull), (''state'', JNull),
             (''zip_code'', JNull), (''inspection_score'', JNull),
             (''self'', JStr ''http://h/businesses/1'')],
            [(''id'', JInt 2), (''owner_id'', JStr ''bob''), (''name'', JStr ''B''),
             (''street_address'', JNull), (''city'', JNull), (''state'', JNull),
             (''zip_code'', JNull), (''inspection_score'', JNull),
             (''self'', JStr ''http://h/businesses/2'')]])"
proof -
  have s: "split ''Bearer'' = [''Bearer'']"
    by (simp add: split_def is_space_def)
  have v: "verify_jwt demo_jose [(''Authorization'', ''Bearer'')] = Inl IndexError"
    by (simp add: verify_jwt_def s)
  have n: "verify_jwt demo_jose [] = Inr None"
    by (simp add: verify_jwt_def)
  have d: "str_int 1 = ''1''" "str_int 2 = ''2''"
    by (simp_all add: str_int_def digit_def)
  have a: "businesses_list demo_jose demo_owned ''http://h/'' [(''Authorization'', ''Bearer'')]
       = (500, Unhandled IndexError)"
    by (simp add: businesses_list_def v unhandled_def)
  have b: "businesses_list demo_jose demo_owned ''http://h/'' []
       = (200, JsonList
           [[(''id'', JInt 1), (''owner_id'', JStr ''alice''), (''name'', JStr ''A''),
             (''street_address'', JNull), (''city'', JNull), (''state'', JNull),
             (''zip_code'', JNull), (''inspection_score'', JNull),
             (''self'', JStr ''http://h/businesses/1'')],
            [(''id'', JInt 2), (''owner_id'', JStr ''bob''), (''name'', JStr ''B''),
             (''street_address'', JNull), (''city'', JNull), (''state'', JNull),
             (''zip_code'', JNull), (''inspection_score'', JNull),
             (''self'', JStr ''http://h/businesses/2'')]])"
    by (simp add: businesses_list_def n Let_def demo_owned_def dict_get_def d)
  from s v a b show ?thesis by simp
qed

end
